theory Spec2Isabelle
  imports Main
begin

section \<open>Python values and exceptions\<close>

text \<open>
  The exceptions the modelled code can raise.  A function that can raise returns
  \<open>exn + 'a\<close>, with \<open>Inl\<close> for the exception.
\<close>

datatype exn = NameError | KeyError | ValueError | TypeError | AttributeError

text \<open>
  What \<^verbatim>\<open>json.loads\<close> returns.  Numbers are integers: the envelopes of the device carry
  no fractions.  An object is the list of its members, whose keys are distinct; a payload
  is such an object.
\<close>

datatype json =
  JNull | JBool bool | JInt int | JStr string | JList "json list" | JObj "(string \<times> json) list"

type_synonym payload = "(string \<times> json) list"

text \<open>\<^verbatim>\<open>payload[key]\<close> and \<^verbatim>\<open>key in payload\<close>.\<close>

definition payload_get :: "payload \<Rightarrow> string \<Rightarrow> exn + json" where
  "payload_get payload key = (case map_of payload key of None \<Rightarrow> Inl KeyError | Some v \<Rightarrow> Inr v)"

definition payload_has :: "payload \<Rightarrow> string \<Rightarrow> bool" where
  "payload_has payload key = (map_of payload key \<noteq> None)"

text \<open>
  \<^verbatim>\<open>int(x)\<close>.  On a string: surrounding whitespace is dropped, a sign may come first,
  then decimal digits with single underscores between them.  Only ASCII is modelled:
  the whitespace and the digits beyond ASCII that \<^verbatim>\<open>int\<close> also accepts, and the
  interpreter's bound on the number of digits, are left out.
\<close>

definition digit_of :: "char \<Rightarrow> nat option" where
  "digit_of c = (let n = (of_char c :: nat) in if 48 \<le> n \<and> n \<le> 57 then Some (n - 48) else None)"

definition is_space :: "char \<Rightarrow> bool" where
  "is_space c = ((of_char c :: nat) \<in> {9, 10, 11, 12, 13, 32})"

fun parse_digits :: "string \<Rightarrow> nat \<Rightarrow> nat option" where
  "parse_digits [] acc = Some acc"
| "parse_digits [c] acc = (case digit_of c of None \<Rightarrow> None | Some d \<Rightarrow> Some (acc * 10 + d))"
| "parse_digits (c # c' # cs) acc =
     (if c = CHR ''_'' then
        (case digit_of c' of None \<Rightarrow> None | Some d \<Rightarrow> parse_digits cs (acc * 10 + d))
      else
        (case digit_of c of None \<Rightarrow> None | Some d \<Rightarrow> parse_digits (c' # cs) (acc * 10 + d)))"

definition parse_nat :: "string \<Rightarrow> nat option" where
  "parse_nat s =
     (case s of
        [] \<Rightarrow> None
      | c # cs \<Rightarrow> (case digit_of c of None \<Rightarrow> None | Some d \<Rightarrow> parse_digits cs d))"

definition strip :: "string \<Rightarrow> string" where
  "strip s = rev (dropWhile is_space (rev (dropWhile is_space s)))"

definition int_of_str :: "string \<Rightarrow> exn + int" where
  "int_of_str s =
     (case strip s of
        [] \<Rightarrow> Inl ValueError
      | c # cs \<Rightarrow>
          if c = CHR ''-'' then
            (case parse_nat cs of None \<Rightarrow> Inl ValueError | Some n \<Rightarrow> Inr (- int n))
          else if c = CHR ''+'' then
            (case parse_nat cs of None \<Rightarrow> Inl ValueError | Some n \<Rightarrow> Inr (int n))
          else
            (case parse_nat (c # cs) of None \<Rightarrow> Inl ValueError | Some n \<Rightarrow> Inr (int n)))"

fun py_int :: "json \<Rightarrow> exn + int" where
  "py_int (JInt n) = Inr n"
| "py_int (JBool b) = Inr (if b then 1 else 0)"
| "py_int (JStr s) = int_of_str s"
| "py_int JNull = Inl TypeError"
| "py_int (JList xs) = Inl TypeError"
| "py_int (JObj kvs) = Inl TypeError"

text \<open>
  The integer a value is equal to, as \<^verbatim>\<open>==\<close> and the lookup of an enum member by value
  see it: \<^verbatim>\<open>True\<close> is \<^verbatim>\<open>1\<close> and \<^verbatim>\<open>False\<close> is \<^verbatim>\<open>0\<close>.
\<close>

fun as_number :: "json \<Rightarrow> int option" where
  "as_number (JInt n) = Some n"
| "as_number (JBool b) = Some (if b then 1 else 0)"
| "as_number v = None"

text \<open>Truth of a value, as \<^verbatim>\<open>not\<close> and \<^verbatim>\<open>if\<close> see it.\<close>

fun truthy :: "json \<Rightarrow> bool" where
  "truthy JNull = False"
| "truthy (JBool b) = b"
| "truthy (JInt n) = (n \<noteq> 0)"
| "truthy (JStr s) = (s \<noteq> [])"
| "truthy (JList xs) = (xs \<noteq> [])"
| "truthy (JObj kvs) = (kvs \<noteq> [])"

text \<open>\<^verbatim>\<open>str(n)\<close> for an integer, as \<^verbatim>\<open>format\<close> prints it.\<close>

definition digit_char :: "nat \<Rightarrow> char" where
  "digit_char d =
     (if d = 0 then CHR ''0'' else if d = 1 then CHR ''1'' else if d = 2 then CHR ''2''
      else if d = 3 then CHR ''3'' else if d = 4 then CHR ''4'' else if d = 5 then CHR ''5''
      else if d = 6 then CHR ''6'' else if d = 7 then CHR ''7'' else if d = 8 then CHR ''8''
      else CHR ''9'')"

fun str_nat :: "nat \<Rightarrow> string" where
  "str_nat n =
     (if n < 10 then [digit_char n]
      else str_nat (n div 10) @ [digit_char (n mod 10)])"

declare str_nat.simps [simp del]

definition str_int :: "int \<Rightarrow> string" where
  "str_int i = (if i < 0 then CHR ''-'' # str_nat (nat (- i)) else str_nat (nat i))"

section \<open>Timestamps and the drift threshold\<close>

text \<open>
  \<^verbatim>\<open>Timestamp.value\<close> is a timezone-aware \<^verbatim>\<open>datetime\<close>.  It is modelled by the instant
  it denotes, counted in microseconds since the epoch (the resolution of \<^verbatim>\<open>datetime\<close>);
  a \<^verbatim>\<open>timedelta\<close> is a number of microseconds.
\<close>

datatype Timestamp = Timestamp (epoch_usec: int)

definition timedelta_seconds :: "int \<Rightarrow> int" where
  "timedelta_seconds n = n * 1000000"

definition abs_delta :: "Timestamp \<Rightarrow> Timestamp \<Rightarrow> int" where
  "abs_delta self other = \<bar>epoch_usec self - epoch_usec other\<bar>"

definition NTP_SYNC_TIME_DIFF_THRESHOLD_SEC :: int where
  "NTP_SYNC_TIME_DIFF_THRESHOLD_SEC = 10"

definition device_timestamp_sync_drift_check :: "Timestamp \<Rightarrow> Timestamp \<Rightarrow> bool" where
  "device_timestamp_sync_drift_check timestamp_backend timestamp_device =
     (let delta = abs_delta timestamp_backend timestamp_device
      in delta < timedelta_seconds NTP_SYNC_TIME_DIFF_THRESHOLD_SEC)"

section \<open>Weekday schedules\<close>

datatype Weekday =
  INVALID_Weekday | MONDAY | TUESDAY | WEDNESDAY | THURSDAY | FRIDAY | SATURDAY | SUNDAY

fun Weekday_value :: "Weekday \<Rightarrow> int" where
  "Weekday_value INVALID_Weekday = 0"
| "Weekday_value MONDAY = 1"
| "Weekday_value TUESDAY = 2"
| "Weekday_value WEDNESDAY = 3"
| "Weekday_value THURSDAY = 4"
| "Weekday_value FRIDAY = 5"
| "Weekday_value SATURDAY = 6"
| "Weekday_value SUNDAY = 7"

text \<open>\<^verbatim>\<open>Weekday[item]\<close>: the member of that name, \<^verbatim>\<open>KeyError\<close> when there is none.\<close>

definition Weekday_by_name :: "string \<Rightarrow> exn + Weekday" where
  "Weekday_by_name item =
     (if item = ''INVALID'' then Inr INVALID_Weekday
      else if item = ''MONDAY'' then Inr MONDAY
      else if item = ''TUESDAY'' then Inr TUESDAY
      else if item = ''WEDNESDAY'' then Inr WEDNESDAY
      else if item = ''THURSDAY'' then Inr THURSDAY
      else if item = ''FRIDAY'' then Inr FRIDAY
      else if item = ''SATURDAY'' then Inr SATURDAY
      else if item = ''SUNDAY'' then Inr SUNDAY
      else Inl KeyError)"

text \<open>
  \<^verbatim>\<open>WeekdaySchedule.value\<close> is declared \<^verbatim>\<open>set[Weekday]\<close>; \<^verbatim>\<open>create\<close> stores a set,
  \<^verbatim>\<open>from_list\<close> stores the list it has built.  The model keeps the entries of the
  container in the order the \<^verbatim>\<open>for\<close> loops visit them: for a set these are its
  elements, each once; for a list they are the list itself.
\<close>

datatype WeekdaySchedule = WeekdaySchedule (schedule_value: "Weekday list")

fun WeekdaySchedule_from_list_loop :: "string list \<Rightarrow> Weekday list \<Rightarrow> exn + Weekday list" where
  "WeekdaySchedule_from_list_loop [] weekdays = Inr weekdays"
| "WeekdaySchedule_from_list_loop (item # data) weekdays =
     (case Weekday_by_name item of
        Inl e \<Rightarrow> Inl e
      | Inr d \<Rightarrow> WeekdaySchedule_from_list_loop data (weekdays @ [d]))"

definition WeekdaySchedule_from_list :: "string list \<Rightarrow> exn + WeekdaySchedule" where
  "WeekdaySchedule_from_list data =
     (case WeekdaySchedule_from_list_loop data [] of
        Inl e \<Rightarrow> Inl e
      | Inr weekdays \<Rightarrow> Inr (WeekdaySchedule weekdays))"

text \<open>
  \<^verbatim>\<open>[0] * k\<close> is the empty list for a negative \<^verbatim>\<open>k\<close>, which is what \<open>nat\<close> of a
  negative number gives to \<open>replicate\<close>.
\<close>

definition WeekdaySchedule_to_mqtt_payload_value :: "WeekdaySchedule \<Rightarrow> int list" where
  "WeekdaySchedule_to_mqtt_payload_value self =
     (let data = map Weekday_value (schedule_value self)
      in data @ replicate (nat (7 - int (length data))) 0)"

section \<open>Feeding plans\<close>

text \<open>
  \<^verbatim>\<open>HourMinTimestamp.time\<close> is a \<^verbatim>\<open>datetime.time\<close>: hour, minute and, when it is aware,
  the offset of its zone from UTC in seconds.
\<close>

record HourMinTimestamp =
  hour :: int
  minute :: int
  utcoffset :: "int option"

record FoodPlan =
  ident :: int
  execution_time :: HourMinTimestamp
  scheduled_days :: WeekdaySchedule
  enable_audio :: bool
  play_audio_times :: int
  grain_num :: int

definition FoodPlan_set :: "FoodPlan \<Rightarrow> FoodPlan \<Rightarrow> FoodPlan" where
  "FoodPlan_set self other =
     self\<lparr>ident := ident other,
          execution_time := execution_time other,
          scheduled_days := scheduled_days other,
          enable_audio := enable_audio other,
          play_audio_times := play_audio_times other,
          grain_num := grain_num other\<rparr>"

record FoodPlans =
  plans :: "FoodPlan list"

text \<open>
  The \<^verbatim>\<open>for\<close> loop of \<^verbatim>\<open>plan_set\<close>: it stops at the first plan with the id, which it
  overwrites in place, and returns \<^verbatim>\<open>plan_found\<close> with the list.
\<close>

fun plan_set_loop :: "FoodPlan list \<Rightarrow> FoodPlan \<Rightarrow> bool \<times> FoodPlan list" where
  "plan_set_loop [] food_plan = (False, [])"
| "plan_set_loop (plan # rest) food_plan =
     (if ident plan = ident food_plan then (True, FoodPlan_set plan food_plan # rest)
      else (case plan_set_loop rest food_plan of
              (plan_found, rest') \<Rightarrow> (plan_found, plan # rest')))"

definition plan_set :: "FoodPlans \<Rightarrow> FoodPlan \<Rightarrow> FoodPlans" where
  "plan_set self food_plan =
     (case plan_set_loop (plans self) food_plan of
        (plan_found, plans') \<Rightarrow>
          if plan_found = False then self\<lparr>plans := plans' @ [food_plan]\<rparr>
          else self\<lparr>plans := plans'\<rparr>)"

section \<open>Protocol enumerations\<close>

text \<open>
  Members that several enumerations share by name (\<^verbatim>\<open>INVALID\<close>, \<^verbatim>\<open>LOW\<close>, \<^verbatim>\<open>MEDIUM\<close>,
  \<^verbatim>\<open>HIGH\<close>) carry the enumeration as a suffix.  For each enumeration, the table of its
  members by value or by name is the one the source declares.
\<close>

datatype Code = OK | ERROR_1 | ERROR_2 | ERROR_3 | ERROR_4 | ERROR_DEVICE_NOT_BOUND

datatype AgingType = INVALID_AgingType | NON_SCHEDULED_ENABLED | SCHEDULED_ENABLED

datatype NightVision = AUTOMATIC | OPEN | CLOSE

datatype Resolution = P720 | P1080

datatype VideoRecordMode = CONTINUOUS | MOTION_DETECTION

datatype MotionDetectionSensitivity =
  LOW_MotionDetectionSensitivity | MEDIUM_MotionDetectionSensitivity
  | HIGH_MotionDetectionSensitivity

datatype MotionDetectionRange = SMALL | MEDIUM_MotionDetectionRange | LARGE

datatype SoundDetectionSensitivity =
  LOW_SoundDetectionSensitivity | MEDIUM_SoundDetectionSensitivity
  | HIGH_SoundDetectionSensitivity

datatype PowerMode = USB | BATTERY

datatype PowerType = INVALID_PowerType | USB_ONLY | BATTERY_ONLY | USB_AND_BATTERY

datatype SdCardState = NOT_AVAILABLE | AVAILABLE | INITIALIZING

datatype SdCardFileSystem = INVALID_SdCardFileSystem | FAT32 | FAT | EXFAT | NTFS | UNKNOWN

datatype WifiType = TYPE_0 | TYPE_1 | TYPE_2

datatype ExecStep = INVALID_ExecStep | GRAIN_START | GRAIN_END | GRAIN_BLOCKING

datatype GrainOutputType = INVALID_GrainOutputType | FEED_PLAN | MANUAL_FEED | MANUAL_FEED_BUTTON

datatype FoodOutputProgress = IDLE | RUNNING | BLOCKED | ERROR

definition Code_members :: "(int \<times> Code) list" where
  "Code_members =
     [(0, OK), (1, ERROR_1), (2, ERROR_2), (3, ERROR_3), (4, ERROR_4),
      (2030, ERROR_DEVICE_NOT_BOUND)]"

definition AgingType_members :: "(int \<times> AgingType) list" where
  "AgingType_members = [(0, INVALID_AgingType), (1, NON_SCHEDULED_ENABLED), (2, SCHEDULED_ENABLED)]"

definition PowerMode_members :: "(int \<times> PowerMode) list" where
  "PowerMode_members = [(1, USB), (2, BATTERY)]"

definition PowerType_members :: "(int \<times> PowerType) list" where
  "PowerType_members =
     [(0, INVALID_PowerType), (1, USB_ONLY), (2, BATTERY_ONLY), (3, USB_AND_BATTERY)]"

definition SdCardState_members :: "(int \<times> SdCardState) list" where
  "SdCardState_members = [(0, NOT_AVAILABLE), (1, AVAILABLE), (2, INITIALIZING)]"

definition WifiType_members :: "(int \<times> WifiType) list" where
  "WifiType_members = [(0, TYPE_0), (1, TYPE_1), (2, TYPE_2)]"

definition GrainOutputType_members :: "(int \<times> GrainOutputType) list" where
  "GrainOutputType_members =
     [(0, INVALID_GrainOutputType), (1, FEED_PLAN), (2, MANUAL_FEED), (3, MANUAL_FEED_BUTTON)]"

definition NightVision_names :: "(string \<times> NightVision) list" where
  "NightVision_names = [(''AUTOMATIC'', AUTOMATIC), (''OPEN'', OPEN), (''CLOSE'', CLOSE)]"

definition Resolution_names :: "(string \<times> Resolution) list" where
  "Resolution_names = [(''P720'', P720), (''P1080'', P1080)]"

definition VideoRecordMode_names :: "(string \<times> VideoRecordMode) list" where
  "VideoRecordMode_names = [(''CONTINUOUS'', CONTINUOUS), (''MOTION_DETECTION'', MOTION_DETECTION)]"

definition MotionDetectionSensitivity_names :: "(string \<times> MotionDetectionSensitivity) list" where
  "MotionDetectionSensitivity_names =
     [(''LOW'', LOW_MotionDetectionSensitivity), (''MEDIUM'', MEDIUM_MotionDetectionSensitivity),
      (''HIGH'', HIGH_MotionDetectionSensitivity)]"

definition MotionDetectionRange_names :: "(string \<times> MotionDetectionRange) list" where
  "MotionDetectionRange_names =
     [(''SMALL'', SMALL), (''MEDIUM'', MEDIUM_MotionDetectionRange), (''LARGE'', LARGE)]"

definition SoundDetectionSensitivity_names :: "(string \<times> SoundDetectionSensitivity) list" where
  "SoundDetectionSensitivity_names =
     [(''LOW'', LOW_SoundDetectionSensitivity), (''MEDIUM'', MEDIUM_SoundDetectionSensitivity),
      (''HIGH'', HIGH_SoundDetectionSensitivity)]"

definition ExecStep_names :: "(string \<times> ExecStep) list" where
  "ExecStep_names =
     [(''INVALID'', INVALID_ExecStep), (''GRAIN_START'', GRAIN_START),
      (''GRAIN_END'', GRAIN_END), (''GRAIN_BLOCKING'', GRAIN_BLOCKING)]"

text \<open>
  \<^verbatim>\<open>E(x)\<close>, the member of an enumeration by value: \<^verbatim>\<open>ValueError\<close> when no member has a
  value equal to \<^verbatim>\<open>x\<close>.  \<^verbatim>\<open>E[x]\<close>, the member by name: \<^verbatim>\<open>KeyError\<close> when no member has
  the name, \<^verbatim>\<open>TypeError\<close> when \<^verbatim>\<open>x\<close> cannot be hashed.
\<close>

definition by_value :: "(int \<times> 'a) list \<Rightarrow> json \<Rightarrow> exn + 'a" where
  "by_value members x =
     (case as_number x of
        None \<Rightarrow> Inl ValueError
      | Some n \<Rightarrow> (case map_of members n of None \<Rightarrow> Inl ValueError | Some m \<Rightarrow> Inr m))"

fun by_name :: "(string \<times> 'a) list \<Rightarrow> json \<Rightarrow> exn + 'a" where
  "by_name names (JStr s) = (case map_of names s of None \<Rightarrow> Inl KeyError | Some m \<Rightarrow> Inr m)"
| "by_name names (JList xs) = Inl TypeError"
| "by_name names (JObj kvs) = Inl TypeError"
| "by_name names x = Inl KeyError"

text \<open>\<^verbatim>\<open>E(int(x))\<close>: the conversion to an integer comes first, and may raise.\<close>

definition by_int_value :: "(int \<times> 'a) list \<Rightarrow> json \<Rightarrow> exn + 'a" where
  "by_int_value members x =
     (case py_int x of Inl e \<Rightarrow> Inl e | Inr n \<Rightarrow> by_value members (JInt n))"

definition SdCardFileSystem_from_mqtt_payload_value :: "json \<Rightarrow> SdCardFileSystem" where
  "SdCardFileSystem_from_mqtt_payload_value v =
     (if v = JStr ''FAT32'' then FAT32
      else if v = JStr ''FAT'' then FAT
      else if v = JStr ''EXFAT'' then EXFAT
      else if v = JStr ''NTFS'' then NTFS
      else if v = JStr ''unknown type'' then UNKNOWN
      else INVALID_SdCardFileSystem)"

definition is_error :: "Code \<Rightarrow> bool" where
  "is_error self = (\<not> self = OK)"

text \<open>
  \<^verbatim>\<open>Timestamp.from_timestamp_epoch_ms\<close>: the instant that many milliseconds after the
  epoch.  The source divides by 1000 as a float and calls \<^verbatim>\<open>datetime.fromtimestamp\<close>;
  the model is exact for the instants of this century.  It leaves out the rounding of the
  float, which can be a microsecond off from about \<open>2 ^ 33\<close> seconds on, and the
  \<^verbatim>\<open>ValueError\<close> for years a \<^verbatim>\<open>datetime\<close> cannot hold.
\<close>

definition from_timestamp_epoch_ms :: "int \<Rightarrow> Timestamp" where
  "from_timestamp_epoch_ms timestamp_epoch_ms = Timestamp (timestamp_epoch_ms * 1000)"

text \<open>
  \<^verbatim>\<open>HourMinTimestamp.from_mqtt_payload_value(value)\<close>.  Its first statement reads
  \<^verbatim>\<open>time_string\<close>, a name that is bound nowhere in the module (the parameter is called
  \<^verbatim>\<open>value\<close>), so the call raises \<^verbatim>\<open>NameError\<close> whatever it is given.
\<close>

definition HourMinTimestamp_from_mqtt_payload_value :: "json \<Rightarrow> exn + HourMinTimestamp" where
  "HourMinTimestamp_from_mqtt_payload_value v = Inl NameError"

section \<open>Attribute bags\<close>

text \<open>
  The value of one attribute of a decoded message.  \<^verbatim>\<open>Plain\<close> is a value taken from the
  payload as it is (or an \<^verbatim>\<open>int\<close> or \<^verbatim>\<open>bool\<close> made from one); \<^verbatim>\<open>Plain JNull\<close> is
  \<^verbatim>\<open>None\<close>, which is also what an attribute that was not decoded holds.  A
  \<^verbatim>\<open>PercentageInt\<close> keeps the value it was built from.
\<close>

datatype attr_value =
    Plain json
  | PercentageInt json
  | PowerMode_value PowerMode
  | PowerType_value PowerType
  | AgingType_value AgingType
  | NightVision_value NightVision
  | Resolution_value Resolution
  | VideoRecordMode_value VideoRecordMode
  | MotionDetectionRange_value MotionDetectionRange
  | MotionDetectionSensitivity_value MotionDetectionSensitivity
  | SoundDetectionSensitivity_value SoundDetectionSensitivity
  | SdCardState_value SdCardState
  | SdCardFileSystem_value SdCardFileSystem
  | WifiType_value WifiType
  | HourMinTimestamp_value HourMinTimestamp

type_synonym attrs = "(string \<times> attr_value) list"

definition attr :: "attrs \<Rightarrow> string \<Rightarrow> attr_value" where
  "attr data name = (case map_of data name of None \<Rightarrow> Plain JNull | Some v \<Rightarrow> v)"

text \<open>\<^verbatim>\<open>not x\<close> for an attribute: an enumeration member or an object is true.\<close>

fun py_not :: "attr_value \<Rightarrow> attr_value" where
  "py_not (Plain v) = Plain (JBool (\<not> truthy v))"
| "py_not v = Plain (JBool False)"

text \<open>
  \<^verbatim>\<open>PercentageInt(x)\<close> raises \<^verbatim>\<open>ValueError\<close> outside 0 to 100; the comparison itself
  raises \<^verbatim>\<open>TypeError\<close> when \<^verbatim>\<open>x\<close> is not a number.
\<close>

definition PercentageInt_init :: "json \<Rightarrow> exn + attr_value" where
  "PercentageInt_init percentage_value =
     (case as_number percentage_value of
        None \<Rightarrow> Inl TypeError
      | Some n \<Rightarrow> if n < 0 \<or> n > 100 then Inl ValueError else Inr (PercentageInt percentage_value))"

text \<open>
  The expressions that the decoders apply to \<^verbatim>\<open>payload[key]\<close>:
  \<^item> \<open>AsIs\<close>: \<^verbatim>\<open>payload[key]\<close>;
  \<^item> \<open>AsInt\<close>: \<^verbatim>\<open>int(payload[key])\<close>;
  \<^item> \<open>NonZero\<close>: \<^verbatim>\<open>False if int(payload[key]) == 0 else True\<close>;
  \<^item> \<open>As_Percentage\<close>: \<^verbatim>\<open>PercentageInt(payload[key])\<close>, and \<open>As_Percentage_int\<close>:
    \<^verbatim>\<open>PercentageInt(int(payload[key]))\<close>;
  \<^item> \<open>As_AgingType\<close>, \<open>As_SdCardState\<close>: \<^verbatim>\<open>E(payload[key])\<close>;
  \<^item> \<open>As_AgingType_int\<close>, \<open>As_SdCardState_int\<close>, \<open>As_PowerMode_int\<close>,
    \<open>As_PowerType_int\<close>: \<^verbatim>\<open>E(int(payload[key]))\<close>;
  \<^item> \<open>As_NightVision\<close>, \<open>As_Resolution\<close>, \<open>As_VideoRecordMode\<close>,
    \<open>As_MotionDetectionRange\<close>, \<open>As_MotionDetectionSensitivity\<close>,
    \<open>As_SoundDetectionSensitivity\<close>: \<^verbatim>\<open>E[payload[key]]\<close>;
  \<^item> \<open>As_SdCardFileSystem\<close>: \<^verbatim>\<open>SdCardFileSystem.from_mqtt_payload_value(payload[key])\<close>;
  \<^item> \<open>As_HourMin\<close>: \<^verbatim>\<open>HourMinTimestamp.from_mqtt_payload_value(payload[key])\<close>.
\<close>

datatype conv =
    AsIs | AsInt | NonZero | As_Percentage | As_Percentage_int
  | As_AgingType | As_AgingType_int | As_SdCardState | As_SdCardState_int
  | As_PowerMode_int | As_PowerType_int
  | As_NightVision | As_Resolution | As_VideoRecordMode | As_MotionDetectionRange
  | As_MotionDetectionSensitivity | As_SoundDetectionSensitivity
  | As_SdCardFileSystem | As_HourMin

definition then_value :: "exn + 'a \<Rightarrow> ('a \<Rightarrow> attr_value) \<Rightarrow> exn + attr_value" where
  "then_value r wrap = (case r of Inl e \<Rightarrow> Inl e | Inr x \<Rightarrow> Inr (wrap x))"

fun convert :: "conv \<Rightarrow> json \<Rightarrow> exn + attr_value" where
  "convert AsIs v = Inr (Plain v)"
| "convert AsInt v = then_value (py_int v) (\<lambda>n. Plain (JInt n))"
| "convert NonZero v = then_value (py_int v) (\<lambda>n. Plain (JBool (if n = 0 then False else True)))"
| "convert As_Percentage v = PercentageInt_init v"
| "convert As_Percentage_int v =
     (case py_int v of Inl e \<Rightarrow> Inl e | Inr n \<Rightarrow> PercentageInt_init (JInt n))"
| "convert As_AgingType v = then_value (by_value AgingType_members v) AgingType_value"
| "convert As_AgingType_int v = then_value (by_int_value AgingType_members v) AgingType_value"
| "convert As_SdCardState v = then_value (by_value SdCardState_members v) SdCardState_value"
| "convert As_SdCardState_int v =
     then_value (by_int_value SdCardState_members v) SdCardState_value"
| "convert As_PowerMode_int v = then_value (by_int_value PowerMode_members v) PowerMode_value"
| "convert As_PowerType_int v = then_value (by_int_value PowerType_members v) PowerType_value"
| "convert As_NightVision v = then_value (by_name NightVision_names v) NightVision_value"
| "convert As_Resolution v = then_value (by_name Resolution_names v) Resolution_value"
| "convert As_VideoRecordMode v =
     then_value (by_name VideoRecordMode_names v) VideoRecordMode_value"
| "convert As_MotionDetectionRange v =
     then_value (by_name MotionDetectionRange_names v) MotionDetectionRange_value"
| "convert As_MotionDetectionSensitivity v =
     then_value (by_name MotionDetectionSensitivity_names v) MotionDetectionSensitivity_value"
| "convert As_SoundDetectionSensitivity v =
     then_value (by_name SoundDetectionSensitivity_names v) SoundDetectionSensitivity_value"
| "convert As_SdCardFileSystem v =
     Inr (SdCardFileSystem_value (SdCardFileSystem_from_mqtt_payload_value v))"
| "convert As_HourMin v =
     then_value (HourMinTimestamp_from_mqtt_payload_value v) HourMinTimestamp_value"

text \<open>
  A decoder is a list of rows \<open>(key, field, conversion)\<close> in the order of the source.
  \<open>decode_required\<close> is a dictionary display: every key is read, a missing one raises
  \<^verbatim>\<open>KeyError\<close>.  \<open>decode_sparse\<close> is the chain of
  \<^verbatim>\<open>if key in payload: data = data | { field: ... }\<close>: keys that are absent add nothing.
  Either stops at the first conversion that raises.
\<close>

fun decode_required :: "payload \<Rightarrow> (string \<times> string \<times> conv) list \<Rightarrow> attrs \<Rightarrow> exn + attrs" where
  "decode_required payload [] data = Inr data"
| "decode_required payload ((key, field, c) # rows) data =
     (case payload_get payload key of
        Inl e \<Rightarrow> Inl e
      | Inr v \<Rightarrow>
          (case convert c v of
             Inl e \<Rightarrow> Inl e
           | Inr x \<Rightarrow> decode_required payload rows (data @ [(field, x)])))"

fun decode_sparse :: "payload \<Rightarrow> (string \<times> string \<times> conv) list \<Rightarrow> attrs \<Rightarrow> exn + attrs" where
  "decode_sparse payload [] data = Inr data"
| "decode_sparse payload ((key, field, c) # rows) data =
     (case map_of payload key of
        None \<Rightarrow> decode_sparse payload rows data
      | Some v \<Rightarrow>
          (case convert c v of
             Inl e \<Rightarrow> Inl e
           | Inr x \<Rightarrow> decode_sparse payload rows (data @ [(field, x)])))"

definition AttrPushEventIn_fields :: "(string \<times> string \<times> conv) list" where
  "AttrPushEventIn_fields =
     [(''powerMode'', ''power_mode'', As_PowerMode_int),
      (''powerType'', ''power_type'', As_PowerType_int),
      (''electricQuantity'', ''electric_quantity'', As_Percentage_int),
      (''surplusGrain'', ''surplus_grain'', AsIs),
      (''motorState'', ''motor_state'', AsInt),
      (''grainOutletState'', ''grain_outlet_state'', AsIs),
      (''enableAudio'', ''enable_audio'', AsIs),
      (''audioUrl'', ''audio_url'', AsIs),
      (''volume'', ''volume'', As_Percentage),
      (''lightSwitch'', ''light_switch'', AsIs),
      (''lightAgingType'', ''light_aging_type'', As_AgingType),
      (''lightingStartTimeUtc'', ''lighting_start_time_utc'', As_HourMin),
      (''lightingEndTimeUtc'', ''lighting_end_time_utc'', As_HourMin),
      (''lightingTimes'', ''lighting_times'', AsInt),
      (''soundSwitch'', ''sound_switch'', AsIs),
      (''enableSound'', ''enable_sound'', AsIs),
      (''soundAgingType'', ''sound_aging_type'', As_AgingType),
      (''soundStartTimeUtc'', ''sound_start_time_utc'', As_HourMin),
      (''soundEndTimeUtc'', ''sound_end_time_utc'', As_HourMin),
      (''soundTimes'', ''sound_times'', AsIs),
      (''autoChangeMode'', ''auto_change_mode'', AsIs),
      (''autoThreshold'', ''auto_threshold'', AsIs),
      (''cameraSwitch'', ''camera_switch'', AsIs),
      (''enableCamera'', ''enable_camera'', AsIs),
      (''cameraAgingType'', ''camera_aging_type'', As_AgingType),
      (''nightVision'', ''night_vision'', As_NightVision),
      (''resolution'', ''resolution'', As_Resolution),
      (''cameraStartTimeUtc'', ''camera_start_time_utc'', As_HourMin),
      (''cameraEndTimeUtc'', ''camera_end_time_utc'', As_HourMin),
      (''videoRecordSwitch'', ''video_record_switch'', AsIs),
      (''enableVideoRecord'', ''enable_video_record'', AsIs),
      (''sdCardState'', ''sd_card_state'', As_SdCardState),
      (''sdCardFileSystem'', ''sd_card_file_system'', As_SdCardFileSystem),
      (''sdCardTotalCapacity'', ''sd_card_total_capacity'', AsIs),
      (''sdCardUsedCapacity'', ''sd_card_used_capacity'', AsIs),
      (''videoRecordMode'', ''video_record_mode'', As_VideoRecordMode),
      (''videoRecordAgingType'', ''video_record_aging_type'', As_AgingType),
      (''videoRecordStartTimeUtc'', ''video_record_start_time_utc'', As_HourMin),
      (''videoRecordEndTimeUtc'', ''video_record_end_time_utc'', As_HourMin),
      (''feedingVideoSwitch'', ''feeding_video_switch'', AsIs),
      (''enableVideoStartFeedingPlan'', ''enable_video_start_feeding_plan'', AsIs),
      (''enableVideoAfterManualFeeding'', ''enable_video_after_manual_feeding'', AsIs),
      (''beforeFeedingPlanTime'', ''before_feeding_plan_time'', AsIs),
      (''automaticRecording'', ''automatic_recording'', AsIs),
      (''afterManualFeedingTime'', ''after_manual_feeding_time'', AsIs),
      (''videoWatermarkSwitch'', ''video_watermark_switch'', AsIs),
      (''cloudVideoRecordSwitch'', ''cloud_video_record_switch'', AsIs),
      (''motionDetectionSwitch'', ''motion_detection_switch'', AsIs),
      (''enableMotionDetection'', ''enable_motion_detection'', AsIs),
      (''motionDetectionAgingType'', ''motion_detection_aging_type'', As_AgingType),
      (''motionDetectionRange'', ''motion_detection_range'', As_MotionDetectionRange),
      (''motionDetectionSensitivity'', ''motion_detection_sensitivity'',
         As_MotionDetectionSensitivity),
      (''motionDetectionStartTimeUtc'', ''motion_detection_start_time_utc'', As_HourMin),
      (''motionDetectionEndTimeUtc'', ''motion_detection_end_time_utc'', As_HourMin),
      (''soundDetectionSwitch'', ''sound_detection_switch'', AsIs),
      (''enableSoundDetection'', ''enable_sound_detection'', AsIs),
      (''soundDetectionAgingType'', ''sound_detection_aging_type'', As_AgingType),
      (''soundDetectionSensitivity'', ''sound_detection_sensitivity'',
         As_SoundDetectionSensitivity),
      (''soundDetectionStartTimeUtc'', ''sound_detection_start_time_utc'', As_HourMin),
      (''soundDetectionEndTimeUtc'', ''sound_detection_end_time_utc'', As_HourMin)]"

definition AttrGetServiceIn_required :: "(string \<times> string \<times> conv) list" where
  "AttrGetServiceIn_required =
     [(''powerMode'', ''power_mode'', As_PowerMode_int),
      (''powerType'', ''power_type'', As_PowerType_int),
      (''electricQuantity'', ''electric_quantity'', As_Percentage_int),
      (''surplusGrain'', ''surplus_grain'', AsIs),
      (''motorState'', ''motor_state'', AsInt),
      (''grainOutletState'', ''grain_outlet_state'', AsIs),
      (''wifiSsid'', ''wifi_ssid'', AsIs),
      (''enableAudio'', ''enable_audio'', NonZero),
      (''audioUrl'', ''audio_url'', AsIs),
      (''volume'', ''volume'', As_Percentage_int),
      (''enableLight'', ''enable_light'', AsIs),
      (''lightSwitch'', ''light_switch'', AsIs),
      (''lightAgingType'', ''light_aging_type'', As_AgingType_int),
      (''enableSound'', ''enable_sound'', AsIs),
      (''soundSwitch'', ''sound_switch'', AsIs),
      (''soundAgingType'', ''sound_aging_type'', As_AgingType_int),
      (''autoChangeMode'', ''auto_change_mode'', AsIs),
      (''autoThreshold'', ''auto_threshold'', AsInt),
      (''cameraSwitch'', ''camera_switch'', AsIs),
      (''enableCamera'', ''enable_camera'', AsIs),
      (''cameraAgingType'', ''camera_aging_type'', As_AgingType_int),
      (''resolution'', ''resolution'', As_Resolution),
      (''nightVision'', ''night_vision'', As_NightVision),
      (''videoRecordSwitch'', ''video_record_switch'', AsIs),
      (''enableVideoRecord'', ''enable_video_record'', AsIs),
      (''sdCardState'', ''sd_card_state'', As_SdCardState_int),
      (''videoRecordMode'', ''video_record_mode'', As_VideoRecordMode),
      (''videoRecordAgingType'', ''video_record_aging_type'', As_AgingType_int),
      (''feedingVideoSwitch'', ''feeding_video_switch'', AsIs),
      (''enableVideoStartFeedingPlan'', ''enable_video_start_feeding_plan'', AsIs),
      (''enableVideoAfterManualFeeding'', ''enable_video_after_manual_feeding'', AsIs),
      (''beforeFeedingPlanTime'', ''before_feeding_plan_time'', AsInt),
      (''automaticRecording'', ''automatic_recording'', AsInt),
      (''afterManualFeedingTime'', ''after_manual_feeding_time'', AsInt),
      (''videoWatermarkSwitch'', ''video_watermark_switch'', AsIs),
      (''cloudVideoRecordSwitch'', ''cloud_video_record_switch'', AsIs),
      (''motionDetectionSwitch'', ''motion_detection_switch'', AsIs),
      (''enableMotionDetection'', ''enable_motion_detection'', AsIs),
      (''motionDetectionAgingType'', ''motion_detection_aging_type'', As_AgingType_int),
      (''motionDetectionSensitivity'', ''motion_detection_sensitivity'',
         As_MotionDetectionSensitivity),
      (''motionDetectionRange'', ''motion_detection_range'', As_MotionDetectionRange),
      (''soundDetectionSwitch'', ''sound_detection_switch'', AsIs),
      (''enableSoundDetection'', ''enable_sound_detection'', AsIs),
      (''soundDetectionAgingType'', ''sound_detection_aging_type'', As_AgingType_int),
      (''soundDetectionSensitivity'', ''sound_detection_sensitivity'',
         As_SoundDetectionSensitivity)]"

definition AttrGetServiceIn_optional :: "(string \<times> string \<times> conv) list" where
  "AttrGetServiceIn_optional =
     [(''lightingStartTimeUtc'', ''lighting_start_time_utc'', As_HourMin),
      (''lightingEndTimeUtc'', ''lighting_end_time_utc'', As_HourMin),
      (''lightingTimes'', ''lighting_times'', AsInt),
      (''soundStartTimeUtc'', ''sound_start_time_utc'', As_HourMin),
      (''soundEndTimeUtc'', ''sound_end_time_utc'', As_HourMin),
      (''soundTimes'', ''sound_times'', AsInt),
      (''cameraStartTimeUtc'', ''camera_start_time_utc'', As_HourMin),
      (''cameraEndTimeUtc'', ''camera_end_time_utc'', As_HourMin),
      (''sdCardFileSystem'', ''sd_card_file_system'', As_SdCardFileSystem),
      (''sdCardTotalCapacity'', ''sd_card_total_capacity'', AsInt),
      (''sdCardUsedCapacity'', ''sd_card_used_capacity'', AsInt),
      (''videoRecordStartTimeUtc'', ''video_record_start_time_utc'', As_HourMin),
      (''videoRecordEndTimeUtc'', ''video_record_end_time_utc'', As_HourMin),
      (''motionDetectionStartTimeUtc'', ''motion_detection_start_time_utc'', As_HourMin),
      (''motionDetectionEndTimeUtc'', ''motion_detection_end_time_utc'', As_HourMin),
      (''soundDetectionStartTimeUtc'', ''sound_detection_start_time_utc'', As_HourMin),
      (''soundDetectionEndTimeUtc'', ''sound_detection_end_time_utc'', As_HourMin)]"

section \<open>Messages\<close>

text \<open>
  \<^verbatim>\<open>MessageId(x)\<close> wraps whatever the payload holds under \<^verbatim>\<open>msgId\<close>; a reply sends it
  back as it came.
\<close>

datatype MessageId = MessageId (id_data: json)

text \<open>
  The inbound message classes.  The fields that the classes share (\<^verbatim>\<open>timestamp\<close>,
  \<^verbatim>\<open>message_id\<close>, \<^verbatim>\<open>code\<close>) are declared once and extended; a class with no further
  field is a synonym.
\<close>

record Timestamped =
  timestamp :: Timestamp

record Identified = Timestamped +
  message_id :: MessageId

record Reply = Identified +
  code :: Code

type_synonym NtpIn = Timestamped
type_synonym NtpSyncIn = Reply
type_synonym GetFeedingPlanEventIn = Identified
type_synonym AttrSetServiceIn = Reply
type_synonym ManualFeedingServiceIn = Reply
type_synonym DeviceRebootIn = Reply
type_synonym RestoreIn = Reply
type_synonym InitializeSdCardServiceIn = Reply
type_synonym WifiReconnectServiceIn = Reply

record HeartbeatIn = Timestamped +
  count :: int
  rssi :: int
  wifi_type :: WifiType

record DeviceStartEventIn = Identified +
  success :: json
  pid :: json
  uuid :: json
  mac :: json
  wpa3 :: int
  hardware_version :: json
  software_version :: json

record GetConfigIn = Identified +
  config_product_id :: json
  config_mac_address :: json
  config_hardware_version :: json
  config_software_version :: json

record FeedingPlanServiceIn = Reply +
  acknowledged_plans :: "(json \<times> json) list"
  msg :: json

record GrainOutputEventIn = Identified +
  finished :: json
  output_type :: GrainOutputType
  actual_grain_num :: int
  expected_grain_num :: int
  exec_time :: Timestamp
  exec_step :: ExecStep
  plan_id :: "int option"
  retried :: json

record AttrPushEventIn = Identified +
  pushed :: attrs

record AttrGetServiceIn = Reply +
  reported :: attrs

text \<open>
  The outbound message classes, with their fields in the order of the source.  What is
  published is the message; \<open>out_cmd\<close> and \<open>out_msg_id\<close> are the \<^verbatim>\<open>cmd\<close> and \<^verbatim>\<open>msgId\<close>
  entries of its \<^verbatim>\<open>to_mqtt_payload\<close>.
\<close>

datatype FeedingPlanOut =
  FeedingPlanOut int HourMinTimestamp WeekdaySchedule bool int int Timestamp json

datatype GetFeedingPlanOut =
  GetFeedingPlanOut int HourMinTimestamp WeekdaySchedule bool int int Timestamp json

datatype outbound =
    NtpOut Code Timestamp bool
  | NtpSyncOut MessageId Timestamp
  | DeviceStartEventOut MessageId Timestamp Code
  | GrainOutputEventOut MessageId Timestamp Code ExecStep
  | AttrPushEventOut MessageId Timestamp Code
  | FeedingPlanServiceOut MessageId Timestamp "FeedingPlanOut list"
  | GetFeedingPlanEventOut MessageId Timestamp Code "GetFeedingPlanOut list"
  | GetConfigOut MessageId Timestamp
  | AttrGetServiceOut MessageId Timestamp

fun out_cmd :: "outbound \<Rightarrow> string" where
  "out_cmd (NtpOut c t b) = ''NTP''"
| "out_cmd (NtpSyncOut m t) = ''NTP_SYNC''"
| "out_cmd (DeviceStartEventOut m t c) = ''DEVICE_START_EVENT''"
| "out_cmd (GrainOutputEventOut m t c e) = ''GRAIN_OUTPUT_EVENT''"
| "out_cmd (AttrPushEventOut m t c) = ''ATTR_PUSH_EVENT''"
| "out_cmd (FeedingPlanServiceOut m t ps) = ''FEEDING_PLAN_SERVICE''"
| "out_cmd (GetFeedingPlanEventOut m t c ps) = ''GET_FEEDING_PLAN_EVENT''"
| "out_cmd (GetConfigOut m t) = ''GET_CONFIG''"
| "out_cmd (AttrGetServiceOut m t) = ''ATTR_GET_SERVICE''"

fun out_msg_id :: "outbound \<Rightarrow> json option" where
  "out_msg_id (NtpOut c t b) = None"
| "out_msg_id (NtpSyncOut m t) = Some (id_data m)"
| "out_msg_id (DeviceStartEventOut m t c) = Some (id_data m)"
| "out_msg_id (GrainOutputEventOut m t c e) = Some (id_data m)"
| "out_msg_id (AttrPushEventOut m t c) = Some (id_data m)"
| "out_msg_id (FeedingPlanServiceOut m t ps) = Some (id_data m)"
| "out_msg_id (GetFeedingPlanEventOut m t c ps) = Some (id_data m)"
| "out_msg_id (GetConfigOut m t) = Some (id_data m)"
| "out_msg_id (AttrGetServiceOut m t) = Some (id_data m)"

text \<open>The topics the server publishes on (\<^verbatim>\<open>message_topics.*_sub_get\<close>).\<close>

datatype topic = ota_sub | ntp_sub | broadcast_sub | config_sub | event_sub | service_sub | system_sub

section \<open>Decoding the messages of the event topic\<close>

definition and_then :: "exn + 'a \<Rightarrow> ('a \<Rightarrow> exn + 'b) \<Rightarrow> exn + 'b" where
  "and_then r f = (case r of Inl e \<Rightarrow> Inl e | Inr x \<Rightarrow> f x)"

text \<open>\<^verbatim>\<open>Timestamp.from_timestamp_epoch_ms(int(payload[key]))\<close>.\<close>

definition payload_timestamp :: "payload \<Rightarrow> string \<Rightarrow> exn + Timestamp" where
  "payload_timestamp payload key =
     and_then (payload_get payload key) (\<lambda>v.
     and_then (py_int v) (\<lambda>n. Inr (from_timestamp_epoch_ms n)))"

definition payload_int :: "payload \<Rightarrow> string \<Rightarrow> exn + int" where
  "payload_int payload key = and_then (payload_get payload key) py_int"

definition DeviceStartEventIn_from_mqtt_payload :: "payload \<Rightarrow> exn + DeviceStartEventIn" where
  "DeviceStartEventIn_from_mqtt_payload payload =
     and_then (payload_get payload ''msgId'') (\<lambda>msgId.
     and_then (payload_timestamp payload ''ts'') (\<lambda>ts.
     and_then (payload_get payload ''success'') (\<lambda>success'.
     and_then (payload_get payload ''pid'') (\<lambda>pid'.
     and_then (payload_get payload ''uuid'') (\<lambda>uuid'.
     and_then (payload_get payload ''mac'') (\<lambda>mac'.
     and_then (payload_int payload ''wpa3'') (\<lambda>wpa3'.
     and_then (payload_get payload ''hardwareVersion'') (\<lambda>hardwareVersion.
     and_then (payload_get payload ''softwareVersion'') (\<lambda>softwareVersion.
       Inr \<lparr>timestamp = ts, message_id = MessageId msgId, success = success', pid = pid',
            uuid = uuid', mac = mac', wpa3 = wpa3', hardware_version = hardwareVersion,
            software_version = softwareVersion\<rparr>)))))))))"

definition GetFeedingPlanEventIn_from_mqtt_payload :: "payload \<Rightarrow> exn + GetFeedingPlanEventIn" where
  "GetFeedingPlanEventIn_from_mqtt_payload payload =
     and_then (payload_get payload ''msgId'') (\<lambda>msgId.
     and_then (payload_timestamp payload ''ts'') (\<lambda>ts.
       Inr \<lparr>timestamp = ts, message_id = MessageId msgId\<rparr>))"

definition GrainOutputEventIn_from_mqtt_payload :: "payload \<Rightarrow> exn + GrainOutputEventIn" where
  "GrainOutputEventIn_from_mqtt_payload payload =
     and_then (payload_get payload ''msgId'') (\<lambda>msgId.
     and_then (payload_timestamp payload ''ts'') (\<lambda>ts.
     and_then (payload_get payload ''finished'') (\<lambda>finished'.
     and_then (and_then (payload_get payload ''type'') (by_int_value GrainOutputType_members))
       (\<lambda>type'.
     and_then (payload_int payload ''actualGrainNum'') (\<lambda>actualGrainNum.
     and_then (payload_int payload ''expectGrainNum'') (\<lambda>expectGrainNum.
     and_then (payload_timestamp payload ''execTime'') (\<lambda>execTime.
     and_then (and_then (payload_get payload ''execStep'') (by_name ExecStep_names))
       (\<lambda>execStep.
     and_then (if payload_has payload ''planId''
               then and_then (payload_int payload ''planId'') (\<lambda>n. Inr (Some n))
               else Inr None) (\<lambda>planId.
     and_then (if payload_has payload ''retried'' then payload_get payload ''retried''
               else Inr JNull) (\<lambda>retried'.
       Inr \<lparr>timestamp = ts, message_id = MessageId msgId, finished = finished',
            output_type = type', actual_grain_num = actualGrainNum,
            expected_grain_num = expectGrainNum, exec_time = execTime, exec_step = execStep,
            plan_id = planId, retried = retried'\<rparr>))))))))))"

definition AttrPushEventIn_from_mqtt_payload :: "payload \<Rightarrow> exn + AttrPushEventIn" where
  "AttrPushEventIn_from_mqtt_payload payload =
     and_then (payload_get payload ''msgId'') (\<lambda>msgId.
     and_then (payload_timestamp payload ''ts'') (\<lambda>ts.
     and_then (decode_sparse payload AttrPushEventIn_fields []) (\<lambda>data.
       Inr \<lparr>timestamp = ts, message_id = MessageId msgId, pushed = data\<rparr>)))"

definition AttrGetServiceIn_from_mqtt_payload :: "payload \<Rightarrow> exn + AttrGetServiceIn" where
  "AttrGetServiceIn_from_mqtt_payload payload =
     and_then (payload_get payload ''msgId'') (\<lambda>msgId.
     and_then (payload_timestamp payload ''ts'') (\<lambda>ts.
     and_then (and_then (payload_get payload ''code'') (by_int_value Code_members)) (\<lambda>code'.
     and_then (decode_required payload AttrGetServiceIn_required []) (\<lambda>data.
     and_then (decode_sparse payload AttrGetServiceIn_optional data) (\<lambda>data.
       Inr \<lparr>timestamp = ts, message_id = MessageId msgId, code = code',
            reported = data\<rparr>)))))"

section \<open>The backend\<close>

text \<open>
  The callbacks of the layer above, one slot each in the backend; a slot is either
  \<^verbatim>\<open>None\<close> or holds the callback given to the matching \<^verbatim>\<open>*_listen\<close> method.
\<close>

datatype listener =
    went_online_callback | went_offline_callback | ntp_sync_status_callback | error_callback
  | device_info_callback | device_wifi_info_callback | device_sd_card_info_callback
  | settings_audio_callback | settings_camera_callback | settings_recording_callback
  | settings_motion_detection_callback | settings_sound_detection_callback
  | settings_cloud_video_recording_callback | settings_sound_callback
  | settings_button_lights_callback | settings_feeding_video_callback
  | settings_buttons_auto_lock_callback | state_power_callback | state_food_callback
  | food_output_log_start_callback | food_output_log_end_callback
  | food_output_progress_callback

datatype args =
    NoArgs
  | BoolArg bool
  | StrArg string
  | GrainArgs GrainOutputType int
  | ProgressArg FoodOutputProgress
  | Kwargs "(string \<times> attr_value) list"

text \<open>
  What a handler does, in the order in which it does it:
  \<^item> \<open>Publish\<close>: a message handed to \<^verbatim>\<open>mqtt_publish\<close> for a topic;
  \<^item> \<open>Call\<close>: a callback of the layer above, called with these arguments (a callback is
    taken to return normally);
  \<^item> \<open>WatchdogReset\<close>: \<^verbatim>\<open>heartbeat_watchdog.reset()\<close>, which cancels the timer and
    schedules it anew;
  \<^item> \<open>DriftCheck\<close>: a call of \<^verbatim>\<open>_device_timestamp_sync_drift_check\<close>, with the server
    time and the device time it is given;
  \<^item> \<open>SetOnline\<close>: an assignment to \<^verbatim>\<open>self.is_online\<close>.
  Lines written to the application log are not recorded.
\<close>

datatype effect =
    Publish topic outbound
  | Call listener args
  | WatchdogReset
  | DriftCheck Timestamp Timestamp
  | SetOnline bool

record Backend =
  food_plans :: FoodPlans
  device_serial :: string
  callback :: "listener \<Rightarrow> bool"
  last_heartbeat_count :: int
  is_online :: bool
  ntp_sync_error :: bool
  settings_audio_enabled :: attr_value
  settings_audio_file_url :: attr_value
  generated :: nat
  trace :: "effect list"

text \<open>
  What a handler reads from outside: the clock (\<^verbatim>\<open>Timestamp.now()\<close>; one handler runs at
  one instant) and the random source of \<^verbatim>\<open>MessageId.generate()\<close>, of which the backend
  counts the draws.
\<close>

record env =
  now :: Timestamp
  fresh :: "nat \<Rightarrow> string"

text \<open>
  A handler returns the backend it leaves behind, and the exception when it raises one:
  what it did before the exception stays done.
\<close>

type_synonym outcome = "exn option \<times> Backend"

definition emit :: "effect \<Rightarrow> Backend \<Rightarrow> Backend" where
  "emit e s = s\<lparr>trace := trace s @ [e]\<rparr>"

text \<open>\<^verbatim>\<open>if not self.x_callback == None: self.x_callback(...)\<close>\<close>

definition call :: "listener \<Rightarrow> args \<Rightarrow> Backend \<Rightarrow> Backend" where
  "call l a s = (if callback s l then emit (Call l a) s else s)"

definition listen :: "listener \<Rightarrow> Backend \<Rightarrow> Backend" where
  "listen l s = s\<lparr>callback := (callback s)(l := True)\<rparr>"

definition send :: "topic \<Rightarrow> outbound \<Rightarrow> Backend \<Rightarrow> Backend" where
  "send t m s = emit (Publish t m) s"

definition set_is_online :: "bool \<Rightarrow> Backend \<Rightarrow> Backend" where
  "set_is_online b s = emit (SetOnline b) (s\<lparr>is_online := b\<rparr>)"

definition generate :: "env \<Rightarrow> Backend \<Rightarrow> MessageId \<times> Backend" where
  "generate env s = (MessageId (JStr (fresh env (generated s))), s\<lparr>generated := Suc (generated s)\<rparr>)"

text \<open>
  \<^verbatim>\<open>Backend.initialize\<close>: no callback of the layer above is set, the device is offline,
  and the watchdog has been reset once.
\<close>

definition initialize :: "string \<Rightarrow> FoodPlans \<Rightarrow> Backend" where
  "initialize device_serial' food_plans' =
     \<lparr>food_plans = food_plans', device_serial = device_serial', callback = (\<lambda>l. False),
      last_heartbeat_count = 0, is_online = False, ntp_sync_error = False,
      settings_audio_enabled = Plain (JBool False), settings_audio_file_url = Plain (JStr []),
      generated = 0, trace = [WatchdogReset]\<rparr>"

text \<open>\<^verbatim>\<open>Plaf203._backend_listeners_register\<close> sets every callback.\<close>

definition backend_listeners_register :: "Backend \<Rightarrow> Backend" where
  "backend_listeners_register s = s\<lparr>callback := (\<lambda>l. True)\<rparr>"

definition error_report :: "string \<Rightarrow> Backend \<Rightarrow> Backend" where
  "error_report message s = call error_callback (StrArg message) s"

definition device_timestamp_sync_drift_check_and_adjust :: "env \<Rightarrow> Timestamp \<Rightarrow> Backend \<Rightarrow> Backend" where
  "device_timestamp_sync_drift_check_and_adjust env timestamp_device s =
     (let timestamp_now = now env;
          s1 = emit (DriftCheck timestamp_now timestamp_device) s
      in if \<not> device_timestamp_sync_drift_check timestamp_now timestamp_device then
           (case generate env s1 of
              (message_id', s2) \<Rightarrow> send ntp_sub (NtpSyncOut message_id' (now env)) s2)
         else s1)"

definition get_config_request :: "env \<Rightarrow> Backend \<Rightarrow> Backend" where
  "get_config_request env s =
     (case generate env s of
        (message_id', s1) \<Rightarrow> send config_sub (GetConfigOut message_id' (now env)) s1)"

definition attr_get_service_request :: "env \<Rightarrow> Backend \<Rightarrow> Backend" where
  "attr_get_service_request env s =
     (case generate env s of
        (message_id', s1) \<Rightarrow> send service_sub (AttrGetServiceOut message_id' (now env)) s1)"

text \<open>
  The loop of \<^verbatim>\<open>_device_food_plans_sync\<close>: one \<^verbatim>\<open>FeedingPlanOut\<close> for each stored plan,
  in order; \<^verbatim>\<open>skip_end_time\<close> keeps its default, \<^verbatim>\<open>None\<close>.
\<close>

definition feeding_plans_out :: "Timestamp \<Rightarrow> FoodPlans \<Rightarrow> FeedingPlanOut list" where
  "feeding_plans_out sync_time_now food_plans' =
     map (\<lambda>food_plan.
           FeedingPlanOut (ident food_plan) (execution_time food_plan)
             (scheduled_days food_plan) (enable_audio food_plan)
             (play_audio_times food_plan) (grain_num food_plan) sync_time_now JNull)
       (plans food_plans')"

definition device_food_plans_sync :: "env \<Rightarrow> FoodPlans \<Rightarrow> Backend \<Rightarrow> Backend" where
  "device_food_plans_sync env food_plans' s =
     (let sync_time_now = now env
      in case generate env s of
           (message_id', s1) \<Rightarrow>
             send service_sub
               (FeedingPlanServiceOut message_id' (now env)
                  (feeding_plans_out sync_time_now food_plans')) s1)"

text \<open>
  \<^verbatim>\<open>_heartbeat_cb\<close>.  In its first \<^verbatim>\<open>if\<close>, \<^verbatim>\<open>self.is_online == False\<close> is a comparison
  whose value is dropped: nothing is assigned.  In the offline branch, the argument of
  \<^verbatim>\<open>self.ad.error\<close> reads \<^verbatim>\<open>ntp_sync_in\<close>, which is not a name of this method, so the
  branch of a failed drift check raises \<^verbatim>\<open>NameError\<close>.
\<close>

definition heartbeat_cb :: "env \<Rightarrow> HeartbeatIn \<Rightarrow> Backend \<Rightarrow> outcome" where
  "heartbeat_cb env heartbeat_in s =
     (let s1 = (if count heartbeat_in < last_heartbeat_count s
                then call went_offline_callback NoArgs s else s);
          s2 = s1\<lparr>last_heartbeat_count := count heartbeat_in\<rparr>
      in if is_online s2 = False then
           (let s3 = get_config_request env s2;
                s4 = attr_get_service_request env s3;
                s5 = device_food_plans_sync env (food_plans s4) s4;
                s6 = set_is_online True s5;
                s7 = call went_online_callback NoArgs s6;
                s8 = call device_info_callback
                       (Kwargs [(''device_serial'', Plain (JStr (device_serial s7)))]) s7;
                s9 = call device_wifi_info_callback
                       (Kwargs [(''rssi'', Plain (JInt (rssi heartbeat_in))),
                                (''type_'', WifiType_value (wifi_type heartbeat_in))]) s8;
                timestamp_now = now env;
                s10 = emit (DriftCheck timestamp_now (timestamp heartbeat_in)) s9
            in if \<not> device_timestamp_sync_drift_check timestamp_now (timestamp heartbeat_in)
               then (Some NameError, s10)
               else (None, emit WatchdogReset (call ntp_sync_status_callback (BoolArg True) s10)))
         else
           (None, emit WatchdogReset (attr_get_service_request env s2)))"

definition ntp_cb :: "env \<Rightarrow> NtpIn \<Rightarrow> Backend \<Rightarrow> outcome" where
  "ntp_cb env ntp_in s =
     (let timestamp_now = now env;
          s1 = emit (DriftCheck timestamp_now (timestamp ntp_in)) s;
          force_time_calbiration =
            (if \<not> device_timestamp_sync_drift_check timestamp_now (timestamp ntp_in)
             then True else False);
          s2 = send ntp_sub (NtpOut OK timestamp_now force_time_calbiration) s1
      in (None, call ntp_sync_status_callback (BoolArg True) s2))"

definition ntp_sync_cb :: "env \<Rightarrow> NtpSyncIn \<Rightarrow> Backend \<Rightarrow> outcome" where
  "ntp_sync_cb env ntp_sync_in s =
     (let timestamp_now = now env;
          s1 = emit (DriftCheck timestamp_now (timestamp ntp_sync_in)) s
      in if \<not> device_timestamp_sync_drift_check timestamp_now (timestamp ntp_sync_in)
         then (None, call ntp_sync_status_callback (BoolArg False) s1)
         else (None, call ntp_sync_status_callback (BoolArg True) s1))"

text \<open>
  \<^verbatim>\<open>x == True\<close> for a payload value: true for \<^verbatim>\<open>True\<close> and for \<^verbatim>\<open>1\<close>.
\<close>

definition equals_True :: "json \<Rightarrow> bool" where
  "equals_True v = (as_number v = Some 1)"

text \<open>
  Where a handler calls \<^verbatim>\<open>_error_report(...)\<close> without \<^verbatim>\<open>self.\<close>, the name is looked up
  as a global, of which the module has none by that name: the call raises \<^verbatim>\<open>NameError\<close>
  and the handler ends there.
\<close>

definition device_start_event_cb :: "env \<Rightarrow> DeviceStartEventIn \<Rightarrow> Backend \<Rightarrow> outcome" where
  "device_start_event_cb env device_start_event s =
     (if equals_True (success device_start_event) then
        (let s1 = call device_info_callback
                    (Kwargs [(''product_id'', Plain (pid device_start_event)),
                             (''uuid'', Plain (uuid device_start_event)),
                             (''hardware_version'', Plain (hardware_version device_start_event)),
                             (''software_version'', Plain (software_version device_start_event))])
                    s;
             s2 = call device_wifi_info_callback
                    (Kwargs [(''mac_address'', Plain (mac device_start_event))]) s1;
             s3 = send event_sub
                    (DeviceStartEventOut (message_id device_start_event) (now env) OK) s2
         in (None, device_timestamp_sync_drift_check_and_adjust env
                     (timestamp device_start_event) s3))
      else (Some NameError, s))"

definition device_reboot_cb :: "env \<Rightarrow> DeviceRebootIn \<Rightarrow> Backend \<Rightarrow> outcome" where
  "device_reboot_cb env device_reboot_in s =
     (if code device_reboot_in \<noteq> OK then (Some NameError, s)
      else (None, call went_offline_callback NoArgs (set_is_online False s)))"

definition restore_cb :: "env \<Rightarrow> RestoreIn \<Rightarrow> Backend \<Rightarrow> outcome" where
  "restore_cb env restore_in s =
     (if code restore_in \<noteq> OK then (Some NameError, s)
      else (None, call went_offline_callback NoArgs (set_is_online False s)))"

definition initialize_sd_card_service_cb :: "env \<Rightarrow> InitializeSdCardServiceIn \<Rightarrow> Backend \<Rightarrow> outcome" where
  "initialize_sd_card_service_cb env initialize_sd_card_service_in s =
     (if code initialize_sd_card_service_in \<noteq> OK then (Some NameError, s)
      else (None, device_timestamp_sync_drift_check_and_adjust env
                    (timestamp initialize_sd_card_service_in) s))"

definition wifi_reconnect_service_cb :: "env \<Rightarrow> WifiReconnectServiceIn \<Rightarrow> Backend \<Rightarrow> outcome" where
  "wifi_reconnect_service_cb env wifi_reconnect_service_in s =
     (if code wifi_reconnect_service_in \<noteq> OK then (Some NameError, s)
      else (None, call went_offline_callback NoArgs (set_is_online False s)))"

definition attr_set_service_cb :: "env \<Rightarrow> AttrSetServiceIn \<Rightarrow> Backend \<Rightarrow> outcome" where
  "attr_set_service_cb env attr_set_service_in s =
     (if code attr_set_service_in \<noteq> OK then (Some NameError, s)
      else (None, device_timestamp_sync_drift_check_and_adjust env
                    (timestamp attr_set_service_in) s))"

definition manual_feeding_service_cb :: "env \<Rightarrow> ManualFeedingServiceIn \<Rightarrow> Backend \<Rightarrow> outcome" where
  "manual_feeding_service_cb env manual_feeding_service_in s =
     (if code manual_feeding_service_in \<noteq> OK then (Some NameError, s)
      else (None, device_timestamp_sync_drift_check_and_adjust env
                    (timestamp manual_feeding_service_in) s))"

definition feeding_plan_service_cb :: "env \<Rightarrow> FeedingPlanServiceIn \<Rightarrow> Backend \<Rightarrow> outcome" where
  "feeding_plan_service_cb env feeding_plan_service_in s =
     (if code feeding_plan_service_in \<noteq> OK then (Some NameError, s)
      else (None, device_timestamp_sync_drift_check_and_adjust env
                    (timestamp feeding_plan_service_in) s))"

definition get_config_cb :: "env \<Rightarrow> GetConfigIn \<Rightarrow> Backend \<Rightarrow> outcome" where
  "get_config_cb env get_config_in s =
     (let s1 = call device_info_callback
                 (Kwargs [(''product_id'', Plain (config_product_id get_config_in)),
                          (''hardware_version'', Plain (config_hardware_version get_config_in)),
                          (''software_version'', Plain (config_software_version get_config_in))])
                 s;
          s2 = call device_wifi_info_callback
                 (Kwargs [(''mac_address'', Plain (config_mac_address get_config_in))]) s1
      in (None, device_timestamp_sync_drift_check_and_adjust env (timestamp get_config_in) s2))"

text \<open>The reply to the plan request leaves on the service topic, as the source sends it.\<close>

definition get_feeding_plan_event_cb :: "env \<Rightarrow> GetFeedingPlanEventIn \<Rightarrow> Backend \<Rightarrow> outcome" where
  "get_feeding_plan_event_cb env get_feeding_plan_event_in s =
     (let timestamp_now = now env;
          get_feeding_plans_out =
            map (\<lambda>food_plan.
                  GetFeedingPlanOut (ident food_plan) (execution_time food_plan)
                    (scheduled_days food_plan) (enable_audio food_plan)
                    (play_audio_times food_plan) (grain_num food_plan) timestamp_now JNull)
              (plans (food_plans s));
          s1 = send service_sub
                 (GetFeedingPlanEventOut (message_id get_feeding_plan_event_in) timestamp_now OK
                    get_feeding_plans_out) s
      in (None, device_timestamp_sync_drift_check_and_adjust env
                  (timestamp get_feeding_plan_event_in) s1))"

definition food_output_mismatch_message :: "int \<Rightarrow> int \<Rightarrow> string" where
  "food_output_mismatch_message actual expected =
     ''Food output actual != expected: '' @ str_int actual @ '' != '' @ str_int expected"

definition grain_output_event_cb :: "env \<Rightarrow> GrainOutputEventIn \<Rightarrow> Backend \<Rightarrow> outcome" where
  "grain_output_event_cb env grain_output_event_in s =
     (let s1 =
            (if exec_step grain_output_event_in = GRAIN_START then
               call food_output_progress_callback (ProgressArg RUNNING)
                 (call food_output_log_start_callback
                    (GrainArgs (output_type grain_output_event_in)
                       (expected_grain_num grain_output_event_in)) s)
             else if exec_step grain_output_event_in = GRAIN_BLOCKING then
               call food_output_progress_callback (ProgressArg BLOCKED) s
             else if exec_step grain_output_event_in = GRAIN_END then
               (let a = call food_output_log_end_callback
                          (GrainArgs (output_type grain_output_event_in)
                             (actual_grain_num grain_output_event_in)) s;
                    b = (if expected_grain_num grain_output_event_in
                             \<noteq> actual_grain_num grain_output_event_in
                         then error_report
                                (food_output_mismatch_message
                                   (actual_grain_num grain_output_event_in)
                                   (expected_grain_num grain_output_event_in)) a
                         else a)
                in call food_output_progress_callback (ProgressArg IDLE) b)
             else s);
          s2 = send service_sub
                 (GrainOutputEventOut (message_id grain_output_event_in) (now env) OK
                    (exec_step grain_output_event_in)) s1
      in (None, device_timestamp_sync_drift_check_and_adjust env
                  (timestamp grain_output_event_in) s2))"

definition heartbeat_watchdog_trigger :: "Backend \<Rightarrow> Backend" where
  "heartbeat_watchdog_trigger s = call went_offline_callback NoArgs (set_is_online False s)"

text \<open>
  The two attribute handlers hand the decoded attributes to the callbacks of the layer
  above, one call per group of settings, in the order of the source.  \<open>calls\<close> runs
  such a list of guarded calls.
\<close>

definition calls :: "(listener \<times> args) list \<Rightarrow> Backend \<Rightarrow> Backend" where
  "calls cs s = fold (\<lambda>(l, a). call l a) cs s"

definition cache_audio_settings :: "attrs \<Rightarrow> Backend \<Rightarrow> Backend" where
  "cache_audio_settings d s =
     (let s1 = (if \<not> attr d ''enable_audio'' = Plain JNull
                then s\<lparr>settings_audio_enabled := attr d ''enable_audio''\<rparr> else s)
      in if \<not> attr d ''audio_url'' = Plain JNull
         then s1\<lparr>settings_audio_file_url := attr d ''audio_url''\<rparr> else s1)"

definition attr_get_service_cb :: "env \<Rightarrow> AttrGetServiceIn \<Rightarrow> Backend \<Rightarrow> outcome" where
  "attr_get_service_cb env attr_get_service_in s =
     (let d = reported attr_get_service_in;
          s1 = call settings_audio_callback
                 (Kwargs [(''enable'', attr d ''enable_audio''), (''url'', attr d ''audio_url'')]) s;
          s2 = cache_audio_settings d s1;
          s3 = calls
          [
           (settings_camera_callback,
            Kwargs [(''feature_enabled'', attr d ''enable_camera''),
                    (''enable'', attr d ''camera_switch''),
                    (''aging_type'', attr d ''camera_aging_type''),
                    (''night_vision'', attr d ''night_vision''),
                    (''resolution'', attr d ''resolution'')]),
           (settings_recording_callback,
            Kwargs [(''feature_enabled'', attr d ''enable_video_record''),
                    (''enable'', attr d ''video_record_switch''),
                    (''aging_type'', attr d ''video_record_aging_type''),
                    (''mode'', attr d ''video_record_mode'')]),
           (settings_motion_detection_callback,
            Kwargs [(''feature_enabled'', attr d ''enable_motion_detection''),
                    (''enable'', attr d ''motion_detection_switch''),
                    (''aging_type'', attr d ''motion_detection_aging_type''),
                    (''range_'', attr d ''motion_detection_range''),
                    (''sensitivity'', attr d ''motion_detection_sensitivity'')]),
           (settings_sound_detection_callback,
            Kwargs [(''feature_enabled'', attr d ''enable_sound_detection''),
                    (''enable'', attr d ''sound_detection_switch''),
                    (''aging_type'', attr d ''sound_detection_aging_type''),
                    (''sensitivity'', attr d ''sound_detection_sensitivity'')]),
           (settings_cloud_video_recording_callback,
            Kwargs [(''enable'', attr d ''cloud_video_record_switch'')]),
           (settings_sound_callback,
            Kwargs [(''feature_enabled'', attr d ''enable_sound''),
                    (''enable'', attr d ''sound_switch''),
                    (''aging_type'', attr d ''sound_aging_type''),
                    (''volume'', attr d ''volume'')]),
           (settings_button_lights_callback,
            Kwargs [(''feature_enabled'', attr d ''enable_light''),
                    (''enable'', attr d ''light_switch''),
                    (''aging_type'', attr d ''light_aging_type'')]),
           (state_power_callback,
            Kwargs [(''battery_level'', attr d ''electric_quantity''),
                    (''mode'', attr d ''power_mode''),
                    (''type_'', attr d ''power_type'')]),
           (state_food_callback,
            Kwargs [(''motor_state'', attr d ''motor_state''),
                    (''outlet_blocked'', py_not (attr d ''grain_outlet_state'')),
                    (''low_fill_level'', py_not (attr d ''surplus_grain''))]),
           (device_wifi_info_callback,
            Kwargs [(''ssid'', attr d ''wifi_ssid'')]),
           (device_sd_card_info_callback,
            Kwargs [(''state'', attr d ''sd_card_state''),
                    (''file_system'', attr d ''sd_card_file_system''),
                    (''total_capacity_mb'', attr d ''sd_card_total_capacity''),
                    (''used_capacity_mb'', attr d ''sd_card_used_capacity'')]),
           (settings_feeding_video_callback,
            Kwargs [(''enable'', attr d ''feeding_video_switch''),
                    (''video_on_start_feeding_plan'', attr d ''enable_video_start_feeding_plan''),
                    (''video_after_manual_feeding'',
                       attr d ''enable_video_after_manual_feeding''),
                    (''recording_length_before_feeding_plan_time'',
                       attr d ''before_feeding_plan_time''),
                    (''recording_length_after_manual_feeding_time'',
                       attr d ''after_manual_feeding_time''),
                    (''video_watermark'', attr d ''video_watermark_switch''),
                    (''automatic_recording'', attr d ''automatic_recording'')]),
           (settings_buttons_auto_lock_callback,
            Kwargs [(''enable'', attr d ''auto_change_mode''),
                    (''threshold'', attr d ''auto_threshold'')])
          ] s2
      in (None, device_timestamp_sync_drift_check_and_adjust env
                  (timestamp attr_get_service_in) s3))"

definition attr_push_event_cb :: "env \<Rightarrow> AttrPushEventIn \<Rightarrow> Backend \<Rightarrow> outcome" where
  "attr_push_event_cb env attr_push_event_in s =
     (let d = pushed attr_push_event_in;
          s1 = call settings_audio_callback
                 (Kwargs [(''enable'', attr d ''enable_audio''), (''url'', attr d ''audio_url'')]) s;
          s2 = cache_audio_settings d s1;
          s3 = calls
          [
           (settings_camera_callback,
            Kwargs [(''feature_enabled'', attr d ''enable_camera''),
                    (''enable'', attr d ''camera_switch''),
                    (''aging_type'', attr d ''camera_aging_type''),
                    (''night_vision'', attr d ''night_vision''),
                    (''resolution'', attr d ''resolution'')]),
           (settings_recording_callback,
            Kwargs [(''feature_enabled'', attr d ''enable_video_record''),
                    (''enable'', attr d ''video_record_switch''),
                    (''aging_type'', attr d ''video_record_aging_type''),
                    (''mode'', attr d ''video_record_mode'')]),
           (settings_motion_detection_callback,
            Kwargs [(''feature_enabled'', attr d ''enable_motion_detection''),
                    (''enable'', attr d ''motion_detection_switch''),
                    (''aging_type'', attr d ''motion_detection_aging_type''),
                    (''range_'', attr d ''motion_detection_range''),
                    (''sensitivity'', attr d ''motion_detection_sensitivity'')]),
           (settings_sound_detection_callback,
            Kwargs [(''feature_enabled'', attr d ''enable_sound_detection''),
                    (''enable'', attr d ''sound_detection_switch''),
                    (''aging_type'', attr d ''sound_detection_aging_type''),
                    (''sensitivity'', attr d ''sound_detection_sensitivity'')]),
           (settings_cloud_video_recording_callback,
            Kwargs [(''enable'', attr d ''cloud_video_record_switch'')]),
           (settings_sound_callback,
            Kwargs [(''feature_enabled'', attr d ''enable_sound''),
                    (''enable'', attr d ''sound_switch''),
                    (''aging_type'', attr d ''sound_aging_type''),
                    (''volume'', attr d ''volume'')]),
           (settings_button_lights_callback,
            Kwargs [(''enable'', attr d ''light_switch''),
                    (''aging_type'', attr d ''light_aging_type'')]),
           (state_power_callback,
            Kwargs [(''battery_level'', attr d ''electric_quantity''),
                    (''mode'', attr d ''power_mode''),
                    (''type_'', attr d ''power_type'')]),
           (state_food_callback,
            Kwargs [(''motor_state'', attr d ''motor_state''),
                    (''outlet_blocked'', py_not (attr d ''grain_outlet_state'')),
                    (''low_fill_level'', py_not (attr d ''surplus_grain''))]),
           (device_sd_card_info_callback,
            Kwargs [(''state'', attr d ''sd_card_state''),
                    (''file_system'', attr d ''sd_card_file_system''),
                    (''total_capacity_mb'', attr d ''sd_card_total_capacity''),
                    (''used_capacity_mb'', attr d ''sd_card_used_capacity'')]),
           (settings_feeding_video_callback,
            Kwargs [(''enable'', attr d ''feeding_video_switch''),
                    (''video_on_start_feeding_plan'', attr d ''enable_video_start_feeding_plan''),
                    (''video_after_manual_feeding'',
                       attr d ''enable_video_after_manual_feeding''),
                    (''recording_length_before_feeding_plan_time'',
                       attr d ''before_feeding_plan_time''),
                    (''recording_length_after_manual_feeding_time'',
                       attr d ''after_manual_feeding_time''),
                    (''video_watermark'', attr d ''video_watermark_switch''),
                    (''automatic_recording'', attr d ''automatic_recording'')]),
           (settings_buttons_auto_lock_callback,
            Kwargs [(''enable'', attr d ''auto_change_mode''),
                    (''threshold'', attr d ''auto_threshold'')])
          ] s2;
          s4 = send event_sub (AttrPushEventOut (message_id attr_push_event_in) (now env) OK) s3
      in (None, device_timestamp_sync_drift_check_and_adjust env
                  (timestamp attr_push_event_in) s4))"

section \<open>Dispatch\<close>

text \<open>
  \<^verbatim>\<open>Client._mqtt_recv_event_cb\<close>, with the callbacks that \<^verbatim>\<open>Backend.initialize\<close> gives
  the client.  It registers no callback for \<^verbatim>\<open>DETECTION_EVENT\<close> and none for
  \<^verbatim>\<open>ERROR_EVENT\<close>: their slots stay \<^verbatim>\<open>None\<close>, and the branch does nothing, not even
  decode.  A command the method does not know is logged.
\<close>

definition mqtt_recv_event_cb :: "env \<Rightarrow> payload \<Rightarrow> Backend \<Rightarrow> outcome" where
  "mqtt_recv_event_cb env payload s =
     (case payload_get payload ''cmd'' of
        Inl e \<Rightarrow> (Some e, s)
      | Inr cmd \<Rightarrow>
          if cmd = JStr ''ATTR_GET_SERVICE'' then
            (case AttrGetServiceIn_from_mqtt_payload payload of
               Inl e \<Rightarrow> (Some e, s)
             | Inr attr_get_service_in \<Rightarrow> attr_get_service_cb env attr_get_service_in s)
          else if cmd = JStr ''ATTR_PUSH_EVENT'' then
            (case AttrPushEventIn_from_mqtt_payload payload of
               Inl e \<Rightarrow> (Some e, s)
             | Inr attr_push_event_in \<Rightarrow> attr_push_event_cb env attr_push_event_in s)
          else if cmd = JStr ''DETECTION_EVENT'' then (None, s)
          else if cmd = JStr ''DEVICE_START_EVENT'' then
            (case DeviceStartEventIn_from_mqtt_payload payload of
               Inl e \<Rightarrow> (Some e, s)
             | Inr device_start_event_in \<Rightarrow> device_start_event_cb env device_start_event_in s)
          else if cmd = JStr ''ERROR_EVENT'' then (None, s)
          else if cmd = JStr ''GET_FEEDING_PLAN_EVENT'' then
            (case GetFeedingPlanEventIn_from_mqtt_payload payload of
               Inl e \<Rightarrow> (Some e, s)
             | Inr get_feeding_plan_event_in \<Rightarrow>
                 get_feeding_plan_event_cb env get_feeding_plan_event_in s)
          else if cmd = JStr ''GRAIN_OUTPUT_EVENT'' then
            (case GrainOutputEventIn_from_mqtt_payload payload of
               Inl e \<Rightarrow> (Some e, s)
             | Inr grain_output_event_in \<Rightarrow> grain_output_event_cb env grain_output_event_in s)
          else (None, s))"

text \<open>
  Every inbound message for which \<^verbatim>\<open>Backend.initialize\<close> registers a handler, the
  handler it registers, and the device time the message carries.
\<close>

datatype inbound =
    Heartbeat HeartbeatIn
  | Ntp NtpIn
  | NtpSync NtpSyncIn
  | DeviceStartEvent DeviceStartEventIn
  | DeviceReboot DeviceRebootIn
  | Restore RestoreIn
  | InitializeSdCardService InitializeSdCardServiceIn
  | WifiReconnectService WifiReconnectServiceIn
  | AttrGetService AttrGetServiceIn
  | AttrPushEvent AttrPushEventIn
  | AttrSetService AttrSetServiceIn
  | GetConfig GetConfigIn
  | GetFeedingPlanEvent GetFeedingPlanEventIn
  | ManualFeedingService ManualFeedingServiceIn
  | FeedingPlanService FeedingPlanServiceIn
  | GrainOutputEvent GrainOutputEventIn

fun handle :: "env \<Rightarrow> inbound \<Rightarrow> Backend \<Rightarrow> outcome" where
  "handle env (Heartbeat m) s = heartbeat_cb env m s"
| "handle env (Ntp m) s = ntp_cb env m s"
| "handle env (NtpSync m) s = ntp_sync_cb env m s"
| "handle env (DeviceStartEvent m) s = device_start_event_cb env m s"
| "handle env (DeviceReboot m) s = device_reboot_cb env m s"
| "handle env (Restore m) s = restore_cb env m s"
| "handle env (InitializeSdCardService m) s = initialize_sd_card_service_cb env m s"
| "handle env (WifiReconnectService m) s = wifi_reconnect_service_cb env m s"
| "handle env (AttrGetService m) s = attr_get_service_cb env m s"
| "handle env (AttrPushEvent m) s = attr_push_event_cb env m s"
| "handle env (AttrSetService m) s = attr_set_service_cb env m s"
| "handle env (GetConfig m) s = get_config_cb env m s"
| "handle env (GetFeedingPlanEvent m) s = get_feeding_plan_event_cb env m s"
| "handle env (ManualFeedingService m) s = manual_feeding_service_cb env m s"
| "handle env (FeedingPlanService m) s = feeding_plan_service_cb env m s"
| "handle env (GrainOutputEvent m) s = grain_output_event_cb env m s"

fun device_timestamp :: "inbound \<Rightarrow> Timestamp" where
  "device_timestamp (Heartbeat m) = timestamp m"
| "device_timestamp (Ntp m) = timestamp m"
| "device_timestamp (NtpSync m) = timestamp m"
| "device_timestamp (DeviceStartEvent m) = timestamp m"
| "device_timestamp (DeviceReboot m) = timestamp m"
| "device_timestamp (Restore m) = timestamp m"
| "device_timestamp (InitializeSdCardService m) = timestamp m"
| "device_timestamp (WifiReconnectService m) = timestamp m"
| "device_timestamp (AttrGetService m) = timestamp m"
| "device_timestamp (AttrPushEvent m) = timestamp m"
| "device_timestamp (AttrSetService m) = timestamp m"
| "device_timestamp (GetConfig m) = timestamp m"
| "device_timestamp (GetFeedingPlanEvent m) = timestamp m"
| "device_timestamp (ManualFeedingService m) = timestamp m"
| "device_timestamp (FeedingPlanService m) = timestamp m"
| "device_timestamp (GrainOutputEvent m) = timestamp m"

text \<open>What a handler has added to the trace between two states of the backend.\<close>

definition emitted :: "Backend \<Rightarrow> Backend \<Rightarrow> effect list" where
  "emitted s s' = drop (length (trace s)) (trace s')"

text \<open>The commands of the messages published in a trace, in order.\<close>

fun published_cmds :: "effect list \<Rightarrow> string list" where
  "published_cmds [] = []"
| "published_cmds (Publish t m # es) = out_cmd m # published_cmds es"
| "published_cmds (e # es) = published_cmds es"

section \<open>Example values\<close>

text \<open>Concrete plans and schedules, used where a property is run on an input.\<close>

definition eight_o_clock :: HourMinTimestamp where
  "eight_o_clock = \<lparr>hour = 8, minute = 0, utcoffset = Some 3600\<rparr>"

definition plan_one :: FoodPlan where
  "plan_one = \<lparr>ident = 1, execution_time = eight_o_clock,
     scheduled_days = WeekdaySchedule [MONDAY, FRIDAY],
     enable_audio = False, play_audio_times = 0, grain_num = 2\<rparr>"

definition plan_two :: FoodPlan where
  "plan_two = \<lparr>ident = 2, execution_time = eight_o_clock,
     scheduled_days = WeekdaySchedule [SUNDAY],
     enable_audio = False, play_audio_times = 0, grain_num = 3\<rparr>"

definition plan_two_bigger :: FoodPlan where
  "plan_two_bigger = plan_two\<lparr>grain_num := 9\<rparr>"

definition plan_three :: FoodPlan where
  "plan_three = plan_one\<lparr>ident := 3\<rparr>"

definition eight_mondays :: "Weekday list" where
  "eight_mondays = [MONDAY, MONDAY, MONDAY, MONDAY, MONDAY, MONDAY, MONDAY, MONDAY]"

text \<open>
  A server clock at 2023-11-14 22:13:20 UTC, a device that has started with the serial
  number of the example, one stored plan, and every callback of the layer above set.
\<close>

definition server_time :: Timestamp where
  "server_time = Timestamp 1700000000000000"

definition example_env :: env where
  "example_env = \<lparr>now = server_time, fresh = (\<lambda>n. ''c0ffee00c0ffee00c0ffee00c0ffee0'' @ str_nat n)\<rparr>"

definition offline_backend :: Backend where
  "offline_backend = backend_listeners_register (initialize ''AF0123456789'' \<lparr>plans = [plan_one]\<rparr>)"

definition online_backend :: Backend where
  "online_backend = offline_backend\<lparr>is_online := True, last_heartbeat_count := 52\<rparr>"

definition heartbeat_41 :: HeartbeatIn where
  "heartbeat_41 = \<lparr>timestamp = server_time, count = 41, rssi = - 50, wifi_type = TYPE_1\<rparr>"

definition heartbeat_3 :: HeartbeatIn where
  "heartbeat_3 = \<lparr>timestamp = server_time, count = 3, rssi = - 50, wifi_type = TYPE_1\<rparr>"

text \<open>A heartbeat of a device whose clock is one hour behind the server.\<close>

definition heartbeat_53_late :: HeartbeatIn where
  "heartbeat_53_late =
     \<lparr>timestamp = Timestamp (1700000000000000 - timedelta_seconds 3600), count = 53,
      rssi = - 50, wifi_type = TYPE_1\<rparr>"

definition device_start_failed_payload :: payload where
  "device_start_failed_payload =
     [(''cmd'', JStr ''DEVICE_START_EVENT''),
      (''msgId'', JStr ''0123456789abcdef0123456789abcdef''),
      (''ts'', JInt 1700000000000),
      (''success'', JBool False),
      (''pid'', JStr ''PLAF203''),
      (''uuid'', JStr ''4f3c''),
      (''mac'', JStr ''a0b1c2d3e4f5''),
      (''wpa3'', JInt 0),
      (''hardwareVersion'', JStr ''1.0.7''),
      (''softwareVersion'', JStr ''3.0.14'')]"

definition error_event_payload :: payload where
  "error_event_payload =
     [(''cmd'', JStr ''ERROR_EVENT''),
      (''msgId'', JStr ''0123456789abcdef0123456789abcdef''),
      (''ts'', JInt 1700000000000),
      (''errorCode'', JStr ''MOTOR''),
      (''triggerTime'', JInt 1700000000000)]"

definition light_switch_payload :: payload where
  "light_switch_payload =
     [(''cmd'', JStr ''ATTR_PUSH_EVENT''),
      (''msgId'', JStr ''0123456789abcdef0123456789abcdef''),
      (''ts'', JInt 1700000000000),
      (''lightSwitch'', JBool True)]"

definition lighting_time_payload :: payload where
  "lighting_time_payload = light_switch_payload @ [(''lightingStartTimeUtc'', JStr ''08:30'')]"

definition failed_reply :: Reply where
  "failed_reply =
     \<lparr>timestamp = server_time,
      message_id = MessageId (JStr ''c0ffee00c0ffee00c0ffee00c0ffee00''), code = ERROR_1\<rparr>"

definition ok_reply :: Reply where
  "ok_reply =
     \<lparr>timestamp = server_time,
      message_id = MessageId (JStr ''c0ffee00c0ffee00c0ffee00c0ffee00''), code = OK\<rparr>"

definition failed_plan_reply :: FeedingPlanServiceIn where
  "failed_plan_reply =
     \<lparr>timestamp = server_time,
      message_id = MessageId (JStr ''c0ffee00c0ffee00c0ffee00c0ffee00''), code = ERROR_1,
      acknowledged_plans = [], msg = JStr ''FeedPlanErro''\<rparr>"

definition grain_start_5 :: GrainOutputEventIn where
  "grain_start_5 =
     \<lparr>timestamp = server_time,
      message_id = MessageId (JStr ''0123456789abcdef0123456789abcdef''),
      finished = JBool False, output_type = MANUAL_FEED, actual_grain_num = 0,
      expected_grain_num = 5, exec_time = server_time, exec_step = GRAIN_START,
      plan_id = None, retried = JNull\<rparr>"

definition grain_end_5_4 :: GrainOutputEventIn where
  "grain_end_5_4 =
     grain_start_5\<lparr>finished := JBool True, actual_grain_num := 4, exec_step := GRAIN_END\<rparr>"

definition grain_end_4_4 :: GrainOutputEventIn where
  "grain_end_4_4 = grain_end_5_4\<lparr>expected_grain_num := 4\<rparr>"

definition get_config_reply :: GetConfigIn where
  "get_config_reply =
     \<lparr>timestamp = server_time,
      message_id = MessageId (JStr ''c0ffee00c0ffee00c0ffee00c0ffee00''),
      config_product_id = JStr ''PLAF203'', config_mac_address = JStr ''a0b1c2d3e4f5'',
      config_hardware_version = JStr ''1.0.7'', config_software_version = JStr ''3.0.14''\<rparr>"

section \<open>Properties\<close>

subsection \<open>Clock drift\<close>

text \<open>
  Claim C5.  The drift check is true exactly when the two instants are less than ten
  seconds apart; so it is true for equal instants and for a device nine seconds ahead,
  and false for a device eleven seconds ahead.
\<close>

theorem drift_check_ten_seconds:
  "device_timestamp_sync_drift_check b d = (\<bar>epoch_usec b - epoch_usec d\<bar> < timedelta_seconds 10)
   \<and> device_timestamp_sync_drift_check t t
   \<and> device_timestamp_sync_drift_check t (Timestamp (epoch_usec t + timedelta_seconds 9))
   \<and> \<not> device_timestamp_sync_drift_check t (Timestamp (epoch_usec t + timedelta_seconds 11))"
  by (simp add: device_timestamp_sync_drift_check_def abs_delta_def
      NTP_SYNC_TIME_DIFF_THRESHOLD_SEC_def timedelta_seconds_def)

subsection \<open>The stored plan set\<close>

lemma FoodPlan_set_other: "FoodPlan_set self other = other"
  by (simp add: FoodPlan_set_def)

lemma plan_set_loop_absent:
  "\<forall>q \<in> set ps. ident q \<noteq> ident p \<Longrightarrow> plan_set_loop ps p = (False, ps)"
  by (induction ps) auto

lemma plan_set_loop_first_match:
  "i < length ps \<Longrightarrow> ident (ps ! i) = ident p \<Longrightarrow> \<forall>j<i. ident (ps ! j) \<noteq> ident p
   \<Longrightarrow> plan_set_loop ps p = (True, ps[i := p])"
proof (induction ps arbitrary: i)
  case Nil
  then show ?case by simp
next
  case (Cons a ps)
  show ?case
  proof (cases i)
    case 0
    with Cons.prems show ?thesis by (simp add: FoodPlan_set_other)
  next
    case (Suc k)
    from Cons.prems Suc have "ident a \<noteq> ident p" by auto
    moreover have "plan_set_loop ps p = (True, ps[k := p])"
      using Cons.prems Suc by (intro Cons.IH) auto
    ultimately show ?thesis using Suc by simp
  qed
qed

lemma first_match_or_absent:
  "(\<forall>q \<in> set ps. ident q \<noteq> ident p) \<or>
   (\<exists>i<length ps. ident (ps ! i) = ident p \<and> (\<forall>j<i. ident (ps ! j) \<noteq> ident p))"
proof (induction ps)
  case Nil
  then show ?case by simp
next
  case (Cons a ps)
  show ?case
  proof (cases "ident a = ident p")
    case True
    then have "0 < length (a # ps) \<and> ident ((a # ps) ! 0) = ident p
        \<and> (\<forall>j<0. ident ((a # ps) ! j) \<noteq> ident p)"
      by simp
    then show ?thesis by blast
  next
    case False
    from Cons.IH show ?thesis
    proof
      assume "\<forall>q \<in> set ps. ident q \<noteq> ident p"
      with False show ?thesis by simp
    next
      assume "\<exists>i<length ps. ident (ps ! i) = ident p \<and> (\<forall>j<i. ident (ps ! j) \<noteq> ident p)"
      then obtain i where i: "i < length ps" "ident (ps ! i) = ident p"
          "\<forall>j<i. ident (ps ! j) \<noteq> ident p"
        by blast
      have "Suc i < length (a # ps) \<and> ident ((a # ps) ! Suc i) = ident p
          \<and> (\<forall>j<Suc i. ident ((a # ps) ! j) \<noteq> ident p)"
        using i False by (auto simp: less_Suc_eq_0_disj)
      then show ?thesis by blast
    qed
  qed
qed

lemma plan_set_replaces:
  assumes "i < length (plans fps)" "ident (plans fps ! i) = ident p"
    "\<forall>j<i. ident (plans fps ! j) \<noteq> ident p"
  shows "plan_set fps p = fps\<lparr>plans := (plans fps)[i := p]\<rparr>"
  by (simp add: plan_set_def plan_set_loop_first_match [OF assms])

lemma plan_set_appends:
  assumes "\<forall>q \<in> set (plans fps). ident q \<noteq> ident p"
  shows "plan_set fps p = fps\<lparr>plans := plans fps @ [p]\<rparr>"
  by (simp add: plan_set_def plan_set_loop_absent [OF assms])

lemma plan_set_twice: "plan_set (plan_set fps p) p = plan_set fps p"
proof -
  from first_match_or_absent [of "plans fps" p] show ?thesis
  proof
    assume absent: "\<forall>q \<in> set (plans fps). ident q \<noteq> ident p"
    have "plan_set_loop (plans fps @ [p]) p = (True, (plans fps @ [p])[length (plans fps) := p])"
      using absent by (intro plan_set_loop_first_match) (auto simp: nth_append)
    then show ?thesis
      by (simp add: plan_set_appends [OF absent]) (simp add: plan_set_def)
  next
    assume "\<exists>i<length (plans fps). ident (plans fps ! i) = ident p
        \<and> (\<forall>j<i. ident (plans fps ! j) \<noteq> ident p)"
    then obtain i where i: "i < length (plans fps)" "ident (plans fps ! i) = ident p"
        "\<forall>j<i. ident (plans fps ! j) \<noteq> ident p"
      by blast
    have "plan_set_loop ((plans fps)[i := p]) p = (True, ((plans fps)[i := p])[i := p])"
      using i by (intro plan_set_loop_first_match) (auto simp: nth_list_update)
    then show ?thesis
      by (simp add: plan_set_replaces [OF i]) (simp add: plan_set_def)
  qed
qed

lemma plan_set_stored:
  assumes "p \<in> set (plans fps)" "distinct (map ident (plans fps))"
  shows "plan_set fps p = fps"
proof -
  from assms(1) obtain i where i: "i < length (plans fps)" "plans fps ! i = p"
    by (auto simp: in_set_conv_nth)
  have "\<forall>j<i. ident (plans fps ! j) \<noteq> ident p"
  proof (intro allI impI)
    fix j assume "j < i"
    have "j < length (map ident (plans fps))" "i < length (map ident (plans fps))" "j \<noteq> i"
      using i \<open>j < i\<close> by simp_all
    then have "map ident (plans fps) ! j \<noteq> map ident (plans fps) ! i"
      using nth_eq_iff_index_eq [OF assms(2), of j i] by blast
    with i \<open>j < i\<close> show "ident (plans fps ! j) \<noteq> ident p" by simp
  qed
  with i have "plan_set fps p = fps\<lparr>plans := (plans fps)[i := p]\<rparr>"
    by (intro plan_set_replaces) auto
  moreover have "(plans fps)[i := p] = plans fps"
    using i by (metis list_update_id)
  ultimately show ?thesis by simp
qed

text \<open>
  Claim C9.  \<^verbatim>\<open>plan_set\<close> is keyed by the plan id: the first stored plan with the id of
  the given plan is overwritten in place by it; when no stored plan has the id, the plan is
  appended.  Applying the same plan a second time changes nothing, and neither does
  applying a plan that is already stored in a set whose ids are distinct.
\<close>

theorem plan_set_keyed_by_id:
  "(\<forall>i<length (plans fps).
      ident (plans fps ! i) = ident p \<and> (\<forall>j<i. ident (plans fps ! j) \<noteq> ident p)
      \<longrightarrow> plan_set fps p = fps\<lparr>plans := (plans fps)[i := p]\<rparr>)
   \<and> ((\<forall>q \<in> set (plans fps). ident q \<noteq> ident p)
      \<longrightarrow> plan_set fps p = fps\<lparr>plans := plans fps @ [p]\<rparr>)
   \<and> plan_set (plan_set fps p) p = plan_set fps p
   \<and> (p \<in> set (plans fps) \<and> distinct (map ident (plans fps)) \<longrightarrow> plan_set fps p = fps)"
  using plan_set_replaces [of _ fps p] plan_set_appends [of fps p]
    plan_set_twice [of fps p] plan_set_stored [of p fps]
  by blast

theorem plan_set_keyed_by_id_witness:
  "plan_set \<lparr>plans = [plan_one, plan_two]\<rparr> plan_two_bigger
     = \<lparr>plans = [plan_one, plan_two_bigger]\<rparr>
   \<and> plan_set \<lparr>plans = [plan_one, plan_two]\<rparr> plan_three
     = \<lparr>plans = [plan_one, plan_two, plan_three]\<rparr>
   \<and> plan_set \<lparr>plans = [plan_one, plan_two]\<rparr> plan_two
     = \<lparr>plans = [plan_one, plan_two]\<rparr>"
  using plan_set_keyed_by_id [of "\<lparr>plans = [plan_one, plan_two]\<rparr>" plan_two_bigger]
    plan_set_keyed_by_id [of "\<lparr>plans = [plan_one, plan_two]\<rparr>" plan_three]
    plan_set_keyed_by_id [of "\<lparr>plans = [plan_one, plan_two]\<rparr>" plan_two]
  by (simp add: plan_one_def plan_two_def plan_two_bigger_def plan_three_def
      less_Suc_eq_0_disj)

subsection \<open>Weekday schedules on the wire\<close>

text \<open>
  A schedule whose value is a set holds each weekday once.  With at most seven of them,
  the payload value is their numeric values followed by zeros, seven integers in all.
\<close>

lemma weekday_payload_of_set:
  "distinct (schedule_value ws) \<Longrightarrow> length (schedule_value ws) \<le> 7 \<Longrightarrow>
   WeekdaySchedule_to_mqtt_payload_value ws
     = map Weekday_value (schedule_value ws) @ replicate (7 - length (schedule_value ws)) 0
   \<and> length (WeekdaySchedule_to_mqtt_payload_value ws) = 7"
  by (simp add: WeekdaySchedule_to_mqtt_payload_value_def Let_def nat_diff_distrib')

text \<open>
  Claim C10 asks for exactly seven integers from every schedule of at most seven distinct
  weekdays.  \<^verbatim>\<open>from_list\<close> stores the list it has built where the field is declared a
  set, so the schedule it builds from eight times \<^verbatim>\<open>MONDAY\<close> holds one distinct
  weekday eight times, and its payload value has eight integers: the padding adds nothing.
\<close>

theorem weekday_payload_eight_mondays:
  "WeekdaySchedule_from_list
      [''MONDAY'', ''MONDAY'', ''MONDAY'', ''MONDAY'', ''MONDAY'', ''MONDAY'', ''MONDAY'',
       ''MONDAY'']
     = Inr (WeekdaySchedule eight_mondays)
   \<and> card (set (schedule_value (WeekdaySchedule eight_mondays))) = 1
   \<and> WeekdaySchedule_to_mqtt_payload_value (WeekdaySchedule eight_mondays)
       = [1, 1, 1, 1, 1, 1, 1, 1]
   \<and> length (WeekdaySchedule_to_mqtt_payload_value (WeekdaySchedule eight_mondays)) = 8"
  by (simp add: WeekdaySchedule_from_list_def Weekday_by_name_def eight_mondays_def
      WeekdaySchedule_to_mqtt_payload_value_def)

subsection \<open>What the steps of a handler change\<close>

lemma emit_fields [simp]:
  "trace (emit e s) = trace s @ [e]"
  "callback (emit e s) = callback s"
  "is_online (emit e s) = is_online s"
  "food_plans (emit e s) = food_plans s"
  "generated (emit e s) = generated s"
  "device_serial (emit e s) = device_serial s"
  "last_heartbeat_count (emit e s) = last_heartbeat_count s"
  by (simp_all add: emit_def)

lemma call_fields [simp]:
  "trace (call l a s) = trace s @ (if callback s l then [Call l a] else [])"
  "callback (call l a s) = callback s"
  "is_online (call l a s) = is_online s"
  "food_plans (call l a s) = food_plans s"
  "generated (call l a s) = generated s"
  "device_serial (call l a s) = device_serial s"
  "last_heartbeat_count (call l a s) = last_heartbeat_count s"
  by (simp_all add: call_def)

lemma send_fields [simp]:
  "trace (send t m s) = trace s @ [Publish t m]"
  "callback (send t m s) = callback s"
  "is_online (send t m s) = is_online s"
  "food_plans (send t m s) = food_plans s"
  "generated (send t m s) = generated s"
  "device_serial (send t m s) = device_serial s"
  by (simp_all add: send_def)

lemma set_is_online_fields [simp]:
  "trace (set_is_online b s) = trace s @ [SetOnline b]"
  "callback (set_is_online b s) = callback s"
  "is_online (set_is_online b s) = b"
  "food_plans (set_is_online b s) = food_plans s"
  "generated (set_is_online b s) = generated s"
  "device_serial (set_is_online b s) = device_serial s"
  by (simp_all add: set_is_online_def)

lemma get_config_request_fields [simp]:
  "trace (get_config_request env s)
     = trace s @ [Publish config_sub (GetConfigOut (MessageId (JStr (fresh env (generated s)))) (now env))]"
  "callback (get_config_request env s) = callback s"
  "is_online (get_config_request env s) = is_online s"
  "food_plans (get_config_request env s) = food_plans s"
  "generated (get_config_request env s) = Suc (generated s)"
  "device_serial (get_config_request env s) = device_serial s"
  by (simp_all add: get_config_request_def generate_def)

lemma attr_get_service_request_fields [simp]:
  "trace (attr_get_service_request env s)
     = trace s @ [Publish service_sub (AttrGetServiceOut (MessageId (JStr (fresh env (generated s)))) (now env))]"
  "callback (attr_get_service_request env s) = callback s"
  "is_online (attr_get_service_request env s) = is_online s"
  "food_plans (attr_get_service_request env s) = food_plans s"
  "generated (attr_get_service_request env s) = Suc (generated s)"
  "device_serial (attr_get_service_request env s) = device_serial s"
  by (simp_all add: attr_get_service_request_def generate_def)

lemma device_food_plans_sync_fields [simp]:
  "trace (device_food_plans_sync env fps s)
     = trace s @ [Publish service_sub
         (FeedingPlanServiceOut (MessageId (JStr (fresh env (generated s)))) (now env)
            (feeding_plans_out (now env) fps))]"
  "callback (device_food_plans_sync env fps s) = callback s"
  "is_online (device_food_plans_sync env fps s) = is_online s"
  "food_plans (device_food_plans_sync env fps s) = food_plans s"
  "generated (device_food_plans_sync env fps s) = Suc (generated s)"
  "device_serial (device_food_plans_sync env fps s) = device_serial s"
  by (simp_all add: device_food_plans_sync_def generate_def Let_def)

lemma drift_check_and_adjust_fields [simp]:
  "trace (device_timestamp_sync_drift_check_and_adjust env t s)
     = trace s @ DriftCheck (now env) t #
         (if device_timestamp_sync_drift_check (now env) t then []
          else [Publish ntp_sub (NtpSyncOut (MessageId (JStr (fresh env (generated s)))) (now env))])"
  "callback (device_timestamp_sync_drift_check_and_adjust env t s) = callback s"
  "is_online (device_timestamp_sync_drift_check_and_adjust env t s) = is_online s"
  by (simp_all add: device_timestamp_sync_drift_check_and_adjust_def generate_def Let_def)

lemma calls_fields [simp]:
  "trace (calls cs s) = trace s @ map (\<lambda>(l, a). Call l a) (filter (\<lambda>(l, a). callback s l) cs)"
  "callback (calls cs s) = callback s"
  "is_online (calls cs s) = is_online s"
  "generated (calls cs s) = generated s"
  by (induction cs arbitrary: s) (auto simp: calls_def)

lemma cache_audio_settings_fields [simp]:
  "trace (cache_audio_settings d s) = trace s"
  "callback (cache_audio_settings d s) = callback s"
  "is_online (cache_audio_settings d s) = is_online s"
  "generated (cache_audio_settings d s) = generated s"
  by (simp_all add: cache_audio_settings_def Let_def)

lemma emitted_append [simp]: "trace s' = trace s @ ys \<Longrightarrow> emitted s s' = ys"
  by (simp add: emitted_def)

lemma heartbeat_online:
  "is_online s \<Longrightarrow> heartbeat_cb env heartbeat_in s =
     (None, emit WatchdogReset (attr_get_service_request env
        ((if count heartbeat_in < last_heartbeat_count s
          then call went_offline_callback NoArgs s else s)
         \<lparr>last_heartbeat_count := count heartbeat_in\<rparr>)))"
  by (simp add: heartbeat_cb_def Let_def)

lemma published_cmds_append [simp]:
  "published_cmds (xs @ ys) = published_cmds xs @ published_cmds ys"
  by (induction xs rule: published_cmds.induct) simp_all

lemma heartbeat_offline_trace:
  assumes "\<not> is_online s"
  shows "trace (snd (heartbeat_cb env hb s)) = trace s @
      (if count hb < last_heartbeat_count s \<and> callback s went_offline_callback
       then [Call went_offline_callback NoArgs] else [])
      @ [Publish config_sub (GetConfigOut (MessageId (JStr (fresh env (generated s)))) (now env)),
         Publish service_sub
           (AttrGetServiceOut (MessageId (JStr (fresh env (Suc (generated s))))) (now env)),
         Publish service_sub
           (FeedingPlanServiceOut (MessageId (JStr (fresh env (Suc (Suc (generated s))))))
              (now env) (feeding_plans_out (now env) (food_plans s))),
         SetOnline True]
      @ (if callback s went_online_callback then [Call went_online_callback NoArgs] else [])
      @ (if callback s device_info_callback
         then [Call device_info_callback
                 (Kwargs [(''device_serial'', Plain (JStr (device_serial s)))])] else [])
      @ (if callback s device_wifi_info_callback
         then [Call device_wifi_info_callback
                 (Kwargs [(''rssi'', Plain (JInt (rssi hb))),
                          (''type_'', WifiType_value (wifi_type hb))])] else [])
      @ [DriftCheck (now env) (timestamp hb)]
      @ (if device_timestamp_sync_drift_check (now env) (timestamp hb)
         then (if callback s ntp_sync_status_callback
               then [Call ntp_sync_status_callback (BoolArg True)] else []) @ [WatchdogReset]
         else [])"
  using assms by (simp add: heartbeat_cb_def Let_def)

lemma heartbeat_offline_online:
  "\<not> is_online s \<Longrightarrow> is_online (snd (heartbeat_cb env hb s))"
  by (simp add: heartbeat_cb_def Let_def)

lemma example_fresh [simp]:
  "fresh example_env 0 = ''c0ffee00c0ffee00c0ffee00c0ffee00''"
  "fresh example_env (Suc 0) = ''c0ffee00c0ffee00c0ffee00c0ffee01''"
  "fresh example_env (Suc (Suc 0)) = ''c0ffee00c0ffee00c0ffee00c0ffee02''"
  "now example_env = server_time"
  by (simp_all add: example_env_def str_nat.simps digit_char_def)

lemma example_backends [simp]:
  "callback offline_backend l" "\<not> is_online offline_backend" "generated offline_backend = 0"
  "last_heartbeat_count offline_backend = 0"
  "food_plans offline_backend = \<lparr>plans = [plan_one]\<rparr>"
  "callback online_backend l" "is_online online_backend" "generated online_backend = 0"
  "last_heartbeat_count online_backend = 52"
  by (simp_all add: offline_backend_def online_backend_def backend_listeners_register_def
      initialize_def)

lemma in_emitted: "trace s' = trace s @ ys \<Longrightarrow> e \<in> set ys \<Longrightarrow> e \<in> set (emitted s s')"
  by (simp add: emitted_def)

lemma mismatch_4_5:
  "food_output_mismatch_message 4 5 = ''Food output actual != expected: 4 != 5''"
  by (simp add: food_output_mismatch_message_def str_int_def str_nat.simps digit_char_def)

lemma grain_output_callback [simp]:
  "callback (snd (grain_output_event_cb env e s)) = callback s"
  by (simp add: grain_output_event_cb_def Let_def error_report_def)

lemma grain_end_trace:
  assumes "exec_step e = GRAIN_END"
  shows "trace (snd (grain_output_event_cb env e s)) = trace s @
      (if callback s food_output_log_end_callback
       then [Call food_output_log_end_callback (GrainArgs (output_type e) (actual_grain_num e))]
       else [])
      @ (if expected_grain_num e \<noteq> actual_grain_num e \<and> callback s error_callback
         then [Call error_callback
                 (StrArg (food_output_mismatch_message (actual_grain_num e)
                            (expected_grain_num e)))]
         else [])
      @ (if callback s food_output_progress_callback
         then [Call food_output_progress_callback (ProgressArg IDLE)] else [])
      @ [Publish service_sub (GrainOutputEventOut (message_id e) (now env) OK GRAIN_END),
         DriftCheck (now env) (timestamp e)]
      @ (if device_timestamp_sync_drift_check (now env) (timestamp e) then []
         else [Publish ntp_sub
                 (NtpSyncOut
                    (MessageId (JStr (fresh env (generated s)))) (now env))])"
  using assms by (simp add: grain_output_event_cb_def Let_def error_report_def)

lemmas decode_defs = payload_get_def payload_has_def and_then_def payload_timestamp_def
  payload_int_def from_timestamp_epoch_ms_def

subsection \<open>Replies to the device\<close>

text \<open>
  Claim C1 asks for exactly one reply with the same \<^verbatim>\<open>msgId\<close> to every two-way envelope
  of the device, also on failure.  Two envelopes get none.  A \<^verbatim>\<open>DEVICE_START_EVENT\<close>
  whose \<^verbatim>\<open>success\<close> is false ends in \<^verbatim>\<open>NameError\<close> before the reply is built, and an
  \<^verbatim>\<open>ERROR_EVENT\<close> finds no handler; in both cases the backend is left as it was and
  nothing is published.
\<close>

theorem event_without_reply:
  "mqtt_recv_event_cb env device_start_failed_payload s = (Some NameError, s)
   \<and> emitted s (snd (mqtt_recv_event_cb env device_start_failed_payload s)) = []
   \<and> mqtt_recv_event_cb env error_event_payload s = (None, s)
   \<and> emitted s (snd (mqtt_recv_event_cb env error_event_payload s)) = []"
  by (simp add: mqtt_recv_event_cb_def device_start_failed_payload_def error_event_payload_def
      DeviceStartEventIn_from_mqtt_payload_def decode_defs device_start_event_cb_def
      equals_True_def emitted_def)

text \<open>
  Claim C7 asks that a reply with a code other than \<^verbatim>\<open>OK\<close> reaches the error callback
  and never crashes.  The handlers of the attribute-set, manual-feeding, feeding-plan and
  restore replies raise \<^verbatim>\<open>NameError\<close> instead, whatever the backend and the clock: no
  callback is called and nothing else happens.
\<close>

theorem failed_reply_raises:
  "attr_set_service_cb env failed_reply s = (Some NameError, s)
   \<and> manual_feeding_service_cb env failed_reply s = (Some NameError, s)
   \<and> feeding_plan_service_cb env failed_plan_reply s = (Some NameError, s)
   \<and> restore_cb env failed_reply s = (Some NameError, s)
   \<and> emitted s (snd (attr_set_service_cb env failed_reply s)) = []"
  by (simp add: attr_set_service_cb_def manual_feeding_service_cb_def feeding_plan_service_cb_def
      restore_cb_def failed_reply_def failed_plan_reply_def emitted_def)

subsection \<open>Heartbeats\<close>

text \<open>
  Claim C2 asks that a heartbeat whose count is below the recorded one takes the session
  offline.  No heartbeat does: from a backend that is online, the handler leaves it online
  and never assigns the flag.  With the recorded count 52 and a heartbeat of count 3, it
  calls the went-offline callback and goes on as for any heartbeat of an online device.
\<close>

theorem heartbeat_count_drop_stays_online:
  "is_online (snd (heartbeat_cb env heartbeat_in (s\<lparr>is_online := True\<rparr>)))
   \<and> SetOnline False \<notin> set (emitted (s\<lparr>is_online := True\<rparr>)
        (snd (heartbeat_cb env heartbeat_in (s\<lparr>is_online := True\<rparr>))))
   \<and> count heartbeat_3 < last_heartbeat_count online_backend
   \<and> is_online (snd (heartbeat_cb example_env heartbeat_3 online_backend))
   \<and> emitted online_backend (snd (heartbeat_cb example_env heartbeat_3 online_backend))
     = [Call went_offline_callback NoArgs,
        Publish service_sub
          (AttrGetServiceOut (MessageId (JStr ''c0ffee00c0ffee00c0ffee00c0ffee00'')) server_time),
        WatchdogReset]"
  by (simp add: heartbeat_online emitted_def heartbeat_3_def)

text \<open>
  Claim C3, as the code has it.  A heartbeat that finds the session offline publishes the
  config read request, then the attribute read request, then the push of all stored plans,
  then sets the online flag and calls the went-online callback; nothing else is published
  by the handler.  (Before them comes only the went-offline call of a dropped count.)
\<close>

theorem heartbeat_offline_resync:
  assumes "is_online s = False"
  shows "\<exists>rest.
      emitted s (snd (heartbeat_cb env hb s)) =
        (if count hb < last_heartbeat_count s \<and> callback s went_offline_callback
         then [Call went_offline_callback NoArgs] else [])
        @ [Publish config_sub (GetConfigOut (MessageId (JStr (fresh env (generated s)))) (now env)),
           Publish service_sub
             (AttrGetServiceOut (MessageId (JStr (fresh env (Suc (generated s))))) (now env)),
           Publish service_sub
             (FeedingPlanServiceOut (MessageId (JStr (fresh env (Suc (Suc (generated s))))))
                (now env) (feeding_plans_out (now env) (food_plans s))),
           SetOnline True]
        @ (if callback s went_online_callback then [Call went_online_callback NoArgs] else [])
        @ rest
      \<and> published_cmds rest = []
      \<and> is_online (snd (heartbeat_cb env hb s))"
proof -
  from assms have off: "\<not> is_online s" by simp
  show ?thesis
    apply (intro exI conjI)
      apply (rule emitted_append)
      apply (rule heartbeat_offline_trace [OF off])
     apply simp
    apply (rule heartbeat_offline_online [OF off])
    done
qed

theorem heartbeat_offline_resync_witness:
  "is_online offline_backend = False
   \<and> take 5 (emitted offline_backend (snd (heartbeat_cb example_env heartbeat_41 offline_backend)))
       = [Publish config_sub
            (GetConfigOut (MessageId (JStr ''c0ffee00c0ffee00c0ffee00c0ffee00'')) server_time),
          Publish service_sub
            (AttrGetServiceOut (MessageId (JStr ''c0ffee00c0ffee00c0ffee00c0ffee01'')) server_time),
          Publish service_sub
            (FeedingPlanServiceOut (MessageId (JStr ''c0ffee00c0ffee00c0ffee00c0ffee02''))
               server_time
               [FeedingPlanOut 1 eight_o_clock (WeekdaySchedule [MONDAY, FRIDAY]) False 0 2
                  server_time JNull]),
          SetOnline True,
          Call went_online_callback NoArgs]
   \<and> is_online (snd (heartbeat_cb example_env heartbeat_41 offline_backend))"
  using heartbeat_offline_resync [of offline_backend example_env heartbeat_41]
  by (auto simp: heartbeat_41_def feeding_plans_out_def plan_one_def)

text \<open>
  The claim as stated has the attribute read request first.  For the heartbeat of count
  41 on the offline backend, the commands published are these, the config read first.
\<close>

theorem heartbeat_offline_config_first:
  "is_online offline_backend = False
   \<and> published_cmds (emitted offline_backend (snd (heartbeat_cb example_env heartbeat_41 offline_backend)))
       = [''GET_CONFIG'', ''ATTR_GET_SERVICE'', ''FEEDING_PLAN_SERVICE'']"
  by (simp add: heartbeat_offline_trace)

subsection \<open>Where the drift check runs\<close>

text \<open>
  The handlers that reach a drift check, and the device time they check.
\<close>

lemma drift_check_reached:
  assumes "case m of
             Heartbeat h \<Rightarrow> \<not> is_online s
           | DeviceStartEvent d \<Rightarrow> equals_True (success d)
           | DeviceReboot r \<Rightarrow> False
           | Restore r \<Rightarrow> False
           | WifiReconnectService r \<Rightarrow> False
           | InitializeSdCardService r \<Rightarrow> code r = OK
           | AttrSetService r \<Rightarrow> code r = OK
           | ManualFeedingService r \<Rightarrow> code r = OK
           | FeedingPlanService r \<Rightarrow> code r = OK
           | _ \<Rightarrow> True"
  shows "DriftCheck (now env) (device_timestamp m) \<in> set (emitted s (snd (handle env m s)))"
proof (cases m)
  case (Heartbeat h)
  with assms have "\<not> is_online s" by simp
  from heartbeat_offline_trace [OF this, of env h] show ?thesis
    unfolding Heartbeat handle.simps device_timestamp.simps
    by (rule in_emitted) simp
next
  case (Ntp x)
  then show ?thesis by (simp add: ntp_cb_def Let_def emitted_def)
next
  case (NtpSync x)
  then show ?thesis by (simp add: ntp_sync_cb_def Let_def emitted_def)
next
  case (DeviceStartEvent x)
  with assms show ?thesis by (simp add: device_start_event_cb_def Let_def emitted_def)
next
  case (DeviceReboot x)
  with assms show ?thesis by simp
next
  case (Restore x)
  with assms show ?thesis by simp
next
  case (InitializeSdCardService x)
  with assms show ?thesis by (simp add: initialize_sd_card_service_cb_def emitted_def)
next
  case (WifiReconnectService x)
  with assms show ?thesis by simp
next
  case (AttrGetService x)
  then show ?thesis by (simp add: attr_get_service_cb_def Let_def emitted_def)
next
  case (AttrPushEvent x)
  then show ?thesis by (simp add: attr_push_event_cb_def Let_def emitted_def)
next
  case (AttrSetService x)
  with assms show ?thesis by (simp add: attr_set_service_cb_def emitted_def)
next
  case (GetConfig x)
  then show ?thesis by (simp add: get_config_cb_def Let_def emitted_def)
next
  case (GetFeedingPlanEvent x)
  then show ?thesis by (simp add: get_feeding_plan_event_cb_def Let_def emitted_def)
next
  case (ManualFeedingService x)
  with assms show ?thesis by (simp add: manual_feeding_service_cb_def emitted_def)
next
  case (FeedingPlanService x)
  with assms show ?thesis by (simp add: feeding_plan_service_cb_def emitted_def)
next
  case (GrainOutputEvent x)
  then show ?thesis by (simp add: grain_output_event_cb_def Let_def emitted_def error_report_def)
qed

text \<open>
  The handlers that reach none: the heartbeat of an online session, and the replies to
  reboot, restore and wifi reconnect.
\<close>

lemma drift_check_not_reached:
  assumes "case m of
             Heartbeat h \<Rightarrow> is_online s
           | DeviceReboot r \<Rightarrow> True
           | Restore r \<Rightarrow> True
           | WifiReconnectService r \<Rightarrow> True
           | _ \<Rightarrow> False"
  shows "DriftCheck a b \<notin> set (emitted s (snd (handle env m s)))"
proof (cases m)
  case (Heartbeat h)
  with assms have "is_online s" by simp
  then show ?thesis
    unfolding Heartbeat handle.simps by (simp add: heartbeat_online emitted_def)
next
  case (DeviceReboot r)
  then show ?thesis by (simp add: device_reboot_cb_def emitted_def)
next
  case (Restore r)
  then show ?thesis by (simp add: restore_cb_def emitted_def)
next
  case (WifiReconnectService r)
  then show ?thesis by (simp add: wifi_reconnect_service_cb_def emitted_def)
qed (use assms in simp_all)

text \<open>
  Claim C4, as the code has it.  The drift check runs, against the server's clock and the
  device time of the message, in the handlers of: a heartbeat that finds the session
  offline; the NTP request and the NTP sync reply; a device start that succeeded; the
  replies to attribute set, manual feeding, feeding plan and SD card initialisation when
  their code is \<^verbatim>\<open>OK\<close>; the attribute report and push, the config reply, the plan
  request and the grain output event.  The heartbeat of an online session and the replies
  to reboot, restore and wifi reconnect are handled without any drift check.
\<close>

theorem drift_check_runs:
  "((case m of
       Heartbeat h \<Rightarrow> \<not> is_online s
     | DeviceStartEvent d \<Rightarrow> equals_True (success d)
     | DeviceReboot r \<Rightarrow> False
     | Restore r \<Rightarrow> False
     | WifiReconnectService r \<Rightarrow> False
     | InitializeSdCardService r \<Rightarrow> code r = OK
     | AttrSetService r \<Rightarrow> code r = OK
     | ManualFeedingService r \<Rightarrow> code r = OK
     | FeedingPlanService r \<Rightarrow> code r = OK
     | _ \<Rightarrow> True)
    \<longrightarrow> DriftCheck (now env) (device_timestamp m) \<in> set (emitted s (snd (handle env m s))))
   \<and> ((case m of
         Heartbeat h \<Rightarrow> is_online s
       | DeviceReboot r \<Rightarrow> True
       | Restore r \<Rightarrow> True
       | WifiReconnectService r \<Rightarrow> True
       | _ \<Rightarrow> False)
      \<longrightarrow> (\<forall>a b. DriftCheck a b \<notin> set (emitted s (snd (handle env m s)))))"
  using drift_check_reached [where m = m and s = s and env = env]
    drift_check_not_reached [where m = m and s = s and env = env]
  by blast

theorem drift_check_runs_witness:
  "DriftCheck server_time server_time
     \<in> set (emitted offline_backend
              (snd (handle example_env (Heartbeat heartbeat_41) offline_backend)))
   \<and> DriftCheck server_time server_time
     \<in> set (emitted online_backend
              (snd (handle example_env (GetConfig get_config_reply) online_backend)))
   \<and> DriftCheck server_time (timestamp heartbeat_53_late)
     \<notin> set (emitted online_backend
              (snd (handle example_env (Heartbeat heartbeat_53_late) online_backend)))
   \<and> DriftCheck server_time server_time
     \<notin> set (emitted online_backend
              (snd (handle example_env (DeviceReboot ok_reply) online_backend)))
   \<and> DriftCheck server_time server_time
     \<notin> set (emitted online_backend
              (snd (handle example_env (Restore ok_reply) online_backend)))
   \<and> DriftCheck server_time server_time
     \<notin> set (emitted online_backend
              (snd (handle example_env (WifiReconnectService ok_reply) online_backend)))"
  using drift_check_runs [where m = "Heartbeat heartbeat_41" and s = offline_backend
      and env = example_env]
    drift_check_runs [where m = "GetConfig get_config_reply" and s = online_backend
      and env = example_env]
    drift_check_runs [where m = "Heartbeat heartbeat_53_late" and s = online_backend
      and env = example_env]
    drift_check_runs [where m = "DeviceReboot ok_reply" and s = online_backend
      and env = example_env]
    drift_check_runs [where m = "Restore ok_reply" and s = online_backend
      and env = example_env]
    drift_check_runs [where m = "WifiReconnectService ok_reply" and s = online_backend
      and env = example_env]
  by (simp add: heartbeat_41_def get_config_reply_def)

text \<open>
  The claim as stated includes the heartbeats of an online session.  For one whose device
  clock is an hour behind, the handler asks for the attributes and resets the watchdog:
  no drift check, no sync.
\<close>

theorem online_heartbeat_no_drift_check:
  "is_online online_backend
   \<and> \<not> device_timestamp_sync_drift_check (now example_env) (timestamp heartbeat_53_late)
   \<and> emitted online_backend (snd (heartbeat_cb example_env heartbeat_53_late online_backend))
       = [Publish service_sub
            (AttrGetServiceOut (MessageId (JStr ''c0ffee00c0ffee00c0ffee00c0ffee00'')) server_time),
          WatchdogReset]"
  by (simp add: heartbeat_online heartbeat_53_late_def device_timestamp_sync_drift_check_def
      abs_delta_def server_time_def timedelta_seconds_def NTP_SYNC_TIME_DIFF_THRESHOLD_SEC_def)

subsection \<open>Decoding attribute pushes\<close>

text \<open>
  Claim C6 asks that a time of day in a pushed attribute set decodes to the local time of
  day.  A payload with such a field does not decode: \<^verbatim>\<open>from_mqtt_payload\<close> raises
  \<^verbatim>\<open>NameError\<close>.  The same payload without the field decodes to the one attribute it
  carries, the others staying absent.
\<close>

theorem time_of_day_decode_raises:
  "AttrPushEventIn_from_mqtt_payload lighting_time_payload = Inl NameError
   \<and> AttrPushEventIn_from_mqtt_payload light_switch_payload
     = Inr \<lparr>timestamp = server_time,
            message_id = MessageId (JStr ''0123456789abcdef0123456789abcdef''),
            pushed = [(''light_switch'', Plain (JBool True))]\<rparr>"
  by (simp add: AttrPushEventIn_from_mqtt_payload_def lighting_time_payload_def
      light_switch_payload_def decode_defs AttrPushEventIn_fields_def then_value_def
      HourMinTimestamp_from_mqtt_payload_value_def server_time_def)

subsection \<open>Grain output\<close>

text \<open>
  Claim C8, as the code has it.  After a \<^verbatim>\<open>GRAIN_START\<close> event with expected quantity
  5, a \<^verbatim>\<open>GRAIN_END\<close> event that itself carries expected quantity 5 and actual quantity 4
  makes the backend, when the error and progress callbacks are set, call the error
  callback with the mismatch message and then the progress callback with \<^verbatim>\<open>IDLE\<close>.
\<close>

theorem grain_end_mismatch:
  assumes "exec_step e1 = GRAIN_START" and "expected_grain_num e1 = 5"
    and "exec_step e2 = GRAIN_END" and "expected_grain_num e2 = 5"
    and "actual_grain_num e2 = 4"
    and "callback s error_callback" and "callback s food_output_progress_callback"
  shows "\<exists>pre post.
      emitted (snd (grain_output_event_cb env e1 s))
        (snd (grain_output_event_cb env e2 (snd (grain_output_event_cb env e1 s))))
      = pre @ [Call error_callback (StrArg ''Food output actual != expected: 4 != 5''),
               Call food_output_progress_callback (ProgressArg IDLE)] @ post"
proof -
  let ?s1 = "snd (grain_output_event_cb env e1 s)"
  have "trace (snd (grain_output_event_cb env e2 ?s1)) = trace ?s1 @
      ((if callback s food_output_log_end_callback
        then [Call food_output_log_end_callback (GrainArgs (output_type e2) 4)] else [])
       @ [Call error_callback (StrArg ''Food output actual != expected: 4 != 5''),
          Call food_output_progress_callback (ProgressArg IDLE)]
       @ ([Publish service_sub (GrainOutputEventOut (message_id e2) (now env) OK GRAIN_END),
           DriftCheck (now env) (timestamp e2)]
          @ (if device_timestamp_sync_drift_check (now env) (timestamp e2) then []
             else [Publish ntp_sub
                     (NtpSyncOut (MessageId (JStr (fresh env (generated ?s1)))) (now env))])))"
    using assms by (simp add: grain_end_trace mismatch_4_5)
  then have "emitted ?s1 (snd (grain_output_event_cb env e2 ?s1)) =
      (if callback s food_output_log_end_callback
        then [Call food_output_log_end_callback (GrainArgs (output_type e2) 4)] else [])
       @ [Call error_callback (StrArg ''Food output actual != expected: 4 != 5''),
          Call food_output_progress_callback (ProgressArg IDLE)]
       @ ([Publish service_sub (GrainOutputEventOut (message_id e2) (now env) OK GRAIN_END),
           DriftCheck (now env) (timestamp e2)]
          @ (if device_timestamp_sync_drift_check (now env) (timestamp e2) then []
             else [Publish ntp_sub
                     (NtpSyncOut (MessageId (JStr (fresh env (generated ?s1)))) (now env))]))"
    by (rule emitted_append)
  then show ?thesis by blast
qed

theorem grain_end_mismatch_witness:
  "emitted (snd (grain_output_event_cb example_env grain_start_5 online_backend))
     (snd (grain_output_event_cb example_env grain_end_5_4
        (snd (grain_output_event_cb example_env grain_start_5 online_backend))))
   = [Call food_output_log_end_callback (GrainArgs MANUAL_FEED 4),
      Call error_callback (StrArg ''Food output actual != expected: 4 != 5''),
      Call food_output_progress_callback (ProgressArg IDLE),
      Publish service_sub
        (GrainOutputEventOut (MessageId (JStr ''0123456789abcdef0123456789abcdef''))
           server_time OK GRAIN_END),
      DriftCheck server_time server_time]"
  using grain_end_mismatch [where ?e1.0 = grain_start_5 and ?e2.0 = grain_end_5_4 and s = online_backend
      and env = example_env]
  by (simp add: grain_end_trace grain_start_5_def grain_end_5_4_def mismatch_4_5
      device_timestamp_sync_drift_check_def abs_delta_def timedelta_seconds_def
      NTP_SYNC_TIME_DIFF_THRESHOLD_SEC_def)

text \<open>
  The claim as stated does not say what the \<^verbatim>\<open>GRAIN_END\<close> event expects.  The handler
  compares the two quantities of that event and keeps nothing of the start: after the
  same start, an end event with expected and actual quantity 4 reports no error.
\<close>

theorem grain_end_own_expected:
  "exec_step grain_start_5 = GRAIN_START \<and> expected_grain_num grain_start_5 = 5
   \<and> exec_step grain_end_4_4 = GRAIN_END \<and> actual_grain_num grain_end_4_4 = 4
   \<and> callback online_backend error_callback
   \<and> callback online_backend food_output_progress_callback
   \<and> emitted (snd (grain_output_event_cb example_env grain_start_5 online_backend))
       (snd (grain_output_event_cb example_env grain_end_4_4
          (snd (grain_output_event_cb example_env grain_start_5 online_backend))))
     = [Call food_output_log_end_callback (GrainArgs MANUAL_FEED 4),
        Call food_output_progress_callback (ProgressArg IDLE),
        Publish service_sub
          (GrainOutputEventOut (MessageId (JStr ''0123456789abcdef0123456789abcdef''))
             server_time OK GRAIN_END),
        DriftCheck server_time server_time]"
  by (simp add: grain_end_trace grain_start_5_def grain_end_5_4_def grain_end_4_4_def
      device_timestamp_sync_drift_check_def abs_delta_def timedelta_seconds_def
      NTP_SYNC_TIME_DIFF_THRESHOLD_SEC_def)

end
